theory Spec2Isabelle
  imports Main "HOL-Library.Product_Lexorder" "HOL-Library.Multiset"
begin

section \<open>Notary management backend: data model\<close>

text \<open>
  The development follows \<^verbatim>\<open>src/backend/main.py\<close> and \<^verbatim>\<open>src/schemas.py\<close>.
  Every endpoint is a function from its inputs and the database to either an
  \<^verbatim>\<open>HTTPException\<close> or its response together with the database it leaves behind.
  The database is taken to be reachable; an exception nothing catches is the
  framework's response 500.
\<close>

subsection \<open>Errors\<close>

datatype HTTPException = HTTPException (status_code: nat) (detail: string)

text \<open>The error names of the specification are the status codes the endpoints raise.\<close>

definition InvalidArgumentError :: "HTTPException \<Rightarrow> bool" where
  "InvalidArgumentError e \<longleftrightarrow> status_code e = 400"

definition ForbiddenError :: "HTTPException \<Rightarrow> bool" where
  "ForbiddenError e \<longleftrightarrow> status_code e = 403"

definition NotFoundError :: "HTTPException \<Rightarrow> bool" where
  "NotFoundError e \<longleftrightarrow> status_code e = 404"

definition ConflictError :: "HTTPException \<Rightarrow> bool" where
  "ConflictError e \<longleftrightarrow> status_code e = 409"

definition internal_server_error :: HTTPException where
  "internal_server_error = HTTPException 500 ''Internal Server Error''"

subsection \<open>Dates and times\<close>

text \<open>
  A naive \<^verbatim>\<open>datetime\<close> is its fields (year, month, day, hour, minute, second,
  microsecond); Python compares two of them field by field, which is the
  lexicographic order of the tuple. All times are naive UTC values, and the store
  is taken to keep and compare them as they were written, to the microsecond.
\<close>

type_synonym datetime = "nat \<times> nat \<times> nat \<times> nat \<times> nat \<times> nat \<times> nat"

definition is_leap :: "nat \<Rightarrow> bool" where
  "is_leap y \<longleftrightarrow> y mod 4 = 0 \<and> (y mod 100 \<noteq> 0 \<or> y mod 400 = 0)"

definition days_in_month :: "nat \<Rightarrow> nat \<Rightarrow> nat" where
  "days_in_month y m =
     (if m = 2 then (if is_leap y then 29 else 28)
      else if m = 4 \<or> m = 6 \<or> m = 9 \<or> m = 11 then 30 else 31)"

text \<open>The range check the \<^verbatim>\<open>date\<close> constructor makes (MINYEAR 1, MAXYEAR 9999).\<close>

definition valid_date :: "nat \<Rightarrow> nat \<Rightarrow> nat \<Rightarrow> bool" where
  "valid_date y m d \<longleftrightarrow>
     1 \<le> y \<and> y \<le> 9999 \<and> 1 \<le> m \<and> m \<le> 12 \<and> 1 \<le> d \<and> d \<le> days_in_month y m"

definition is_digit :: "char \<Rightarrow> bool" where
  "is_digit c \<longleftrightarrow> c \<in> set ''0123456789''"

definition digit_val :: "char \<Rightarrow> nat" where
  "digit_val c = of_char c - 48"

text \<open>
  \<^verbatim>\<open>datetime.strptime(day, "%Y-%m-%d")\<close>. The format compiles to the regular expression
  \<^verbatim>\<open>(?P<Y>\d\d\d\d)-(?P<m>1[0-2]|0[1-9]|[1-9])-(?P<d>3[01]|[12]\d|0[1-9]|[1-9]| [1-9])\<close>,
  matched at the start of the string; text left over after the match, and a
  date that does not exist, raise \<^verbatim>\<open>ValueError\<close>. Each directive is a function
  from the remaining text to its value and the text after it; a character is a
  byte, and \<^verbatim>\<open>\d\<close> an ASCII digit.
\<close>

fun directive_Y :: "string \<Rightarrow> (nat \<times> string) option" where
  "directive_Y (a # b # c # d # rest) =
     (if is_digit a \<and> is_digit b \<and> is_digit c \<and> is_digit d
      then Some (1000 * digit_val a + 100 * digit_val b + 10 * digit_val c + digit_val d, rest)
      else None)"
| "directive_Y _ = None"

definition nonzero_digit :: "char \<Rightarrow> bool" where
  "nonzero_digit c \<longleftrightarrow> c \<in> set ''123456789''"

fun directive_m :: "string \<Rightarrow> (nat \<times> string) option" where
  "directive_m (a # b # rest) =
     (if a = CHR ''1'' \<and> b \<in> set ''012'' then Some (10 + digit_val b, rest)
      else if a = CHR ''0'' \<and> nonzero_digit b then Some (digit_val b, rest)
      else if nonzero_digit a then Some (digit_val a, b # rest)
      else None)"
| "directive_m [a] = (if nonzero_digit a then Some (digit_val a, []) else None)"
| "directive_m [] = None"

fun directive_d :: "string \<Rightarrow> (nat \<times> string) option" where
  "directive_d (a # b # rest) =
     (if a = CHR ''3'' \<and> b \<in> set ''01'' then Some (30 + digit_val b, rest)
      else if a \<in> set ''12'' \<and> is_digit b then Some (10 * digit_val a + digit_val b, rest)
      else if a = CHR ''0'' \<and> nonzero_digit b then Some (digit_val b, rest)
      else if nonzero_digit a then Some (digit_val a, b # rest)
      else if a = CHR '' '' \<and> nonzero_digit b then Some (digit_val b, rest)
      else None)"
| "directive_d [a] = (if nonzero_digit a then Some (digit_val a, []) else None)"
| "directive_d [] = None"

fun literal_dash :: "string \<Rightarrow> string option" where
  "literal_dash (c # rest) = (if c = CHR ''-'' then Some rest else None)"
| "literal_dash [] = None"

definition strptime_ymd :: "string \<Rightarrow> (nat \<times> nat \<times> nat) option" where
  "strptime_ymd s =
     (case directive_Y s of None \<Rightarrow> None
      | Some (y, s1) \<Rightarrow>
     (case literal_dash s1 of None \<Rightarrow> None
      | Some s2 \<Rightarrow>
     (case directive_m s2 of None \<Rightarrow> None
      | Some (m, s3) \<Rightarrow>
     (case literal_dash s3 of None \<Rightarrow> None
      | Some s4 \<Rightarrow>
     (case directive_d s4 of None \<Rightarrow> None
      | Some (d, s5) \<Rightarrow>
         if s5 \<noteq> [] then None
         else if valid_date y m d then Some (y, m, d) else None)))))"

text \<open>
  \<^verbatim>\<open>now.strftime("%Y-%m-%d")\<close>: the year on four digits, month and day on two. How a
  year below 1000 is written depends on the platform's C library; the properties
  below read the clock in a year of four digits.
\<close>

definition digit_char :: "nat \<Rightarrow> char" where
  "digit_char n = char_of (48 + n mod 10)"

definition strftime_ymd :: "datetime \<Rightarrow> string" where
  "strftime_ymd t =
     (case t of (y, m, d, _) \<Rightarrow>
        [digit_char (y div 1000), digit_char (y div 100), digit_char (y div 10), digit_char y,
         CHR ''-'', digit_char (m div 10), digit_char m,
         CHR ''-'', digit_char (d div 10), digit_char d])"

text \<open>\<^verbatim>\<open>datetime(d.year, d.month, d.day)\<close>: midnight of that date.\<close>

definition datetime_ymd :: "nat \<times> nat \<times> nat \<Rightarrow> datetime" where
  "datetime_ymd ymd = (case ymd of (y, m, d) \<Rightarrow> (y, m, d, 0, 0, 0, 0))"

text \<open>
  \<^verbatim>\<open>t + timedelta(days=1)\<close>: the same time on the next calendar day;
  \<^verbatim>\<open>OverflowError\<close> (here \<open>None\<close>) past the last day of year 9999.
\<close>

definition add_one_day :: "datetime \<Rightarrow> datetime option" where
  "add_one_day t =
     (case t of (y, m, d, rest) \<Rightarrow>
        if d < days_in_month y m then Some (y, m, d + 1, rest)
        else if m < 12 then Some (y, m + 1, 1, rest)
        else if y < 9999 then Some (y + 1, 1, 1, rest)
        else None)"

subsection \<open>Object identifiers\<close>

text \<open>
  An \<^verbatim>\<open>ObjectId\<close> is its bytes. \<^verbatim>\<open>ObjectId(s)\<close> accepts a string of 24 characters
  that \<^verbatim>\<open>bytes.fromhex\<close> can read (pairs of hexadecimal digits, ASCII white space
  skipped between pairs); \<^verbatim>\<open>str\<close> of an identifier is its lower-case hexadecimal
  text.
\<close>

type_synonym ObjectId = "nat list"

definition hexval :: "char \<Rightarrow> nat option" where
  "hexval c =
     map_of (zip ''0123456789abcdef'' [0..<16] @ zip ''ABCDEF'' [10..<16]) c"

definition isspace :: "char \<Rightarrow> bool" where
  "isspace c \<longleftrightarrow> c = CHR '' '' \<or> (9 \<le> (of_char c :: nat) \<and> (of_char c :: nat) \<le> 13)"

fun fromhex :: "string \<Rightarrow> nat list option" where
  "fromhex [] = Some []"
| "fromhex [c] = (if isspace c then Some [] else None)"
| "fromhex (c # d # cs) =
     (if isspace c then fromhex (d # cs)
      else (case (hexval c, hexval d) of
              (Some h, Some l) \<Rightarrow> map_option ((#) (16 * h + l)) (fromhex cs)
            | _ \<Rightarrow> None))"

definition hexdigit :: "nat \<Rightarrow> char" where
  "hexdigit n = ''0123456789abcdef'' ! (n mod 16)"

definition str_ObjectId :: "ObjectId \<Rightarrow> string" where
  "str_ObjectId bs = concat (map (\<lambda>b. [hexdigit (b div 16), hexdigit b]) bs)"

text \<open>The helper \<^verbatim>\<open>oid\<close> of main.py: any failure of the constructor is a 400.\<close>

definition oid :: "string \<Rightarrow> HTTPException + ObjectId" where
  "oid id_str =
     (if length id_str = 24 then
        (case fromhex id_str of
           Some bs \<Rightarrow> Inr bs
         | None \<Rightarrow> Inl (HTTPException 400 ''Invalid id or bson not available''))
      else Inl (HTTPException 400 ''Invalid id or bson not available''))"

subsection \<open>Roles\<close>

text \<open>\<^verbatim>\<open>get_role\<close>: the X-Role header, \<^verbatim>\<open>"client"\<close> when absent or empty.\<close>

definition get_role :: "string option \<Rightarrow> string" where
  "get_role x_role = (case x_role of None \<Rightarrow> ''client'' | Some r \<Rightarrow> if r = [] then ''client'' else r)"

definition require_role :: "string list \<Rightarrow> string \<Rightarrow> HTTPException + string" where
  "require_role allowed role =
     (if role \<notin> set allowed then Inl (HTTPException 403 ''Forbidden for role'') else Inr role)"

definition staff :: "string list" where
  "staff = [''notary'', ''assistant'']"

subsection \<open>Schemas (schemas.py)\<close>

record Client =
  cl_first_name :: string
  cl_last_name :: string
  cl_email :: string
  cl_phone :: "string option"
  cl_address :: "string option"
  cl_city :: "string option"
  cl_country :: "string option"
  cl_notes :: "string option"

datatype CaseStatus = New | Draft | Waiting_Signature | Completed | Archived

fun CaseStatus_str :: "CaseStatus \<Rightarrow> string" where
  "CaseStatus_str New = ''New''"
| "CaseStatus_str Draft = ''Draft''"
| "CaseStatus_str Waiting_Signature = ''Waiting Signature''"
| "CaseStatus_str Completed = ''Completed''"
| "CaseStatus_str Archived = ''Archived''"

record Case =
  c_client_id :: string
  c_title :: string
  c_type :: string
  c_status :: CaseStatus
  c_description :: "string option"
  c_assigned_to :: "string option"
  c_due_date :: "datetime option"

text \<open>
  The constructor of the model: \<^verbatim>\<open>status\<close> is \<^verbatim>\<open>Field("New")\<close>, so a request that
  leaves it out gets \<^verbatim>\<open>"New"\<close>; the optional fields default to \<^verbatim>\<open>None\<close>.
\<close>

definition Case_of ::
  "string \<Rightarrow> string \<Rightarrow> string \<Rightarrow> CaseStatus option \<Rightarrow> string option \<Rightarrow> string option
     \<Rightarrow> datetime option \<Rightarrow> Case" where
  "Case_of client title type status description assigned_to due_date =
     \<lparr>c_client_id = client, c_title = title, c_type = type,
      c_status = (case status of None \<Rightarrow> New | Some st \<Rightarrow> st),
      c_description = description, c_assigned_to = assigned_to, c_due_date = due_date\<rparr>"

datatype AppointmentStatus = Scheduled | Appt_Completed | Cancelled

fun AppointmentStatus_str :: "AppointmentStatus \<Rightarrow> string" where
  "AppointmentStatus_str Scheduled = ''Scheduled''"
| "AppointmentStatus_str Appt_Completed = ''Completed''"
| "AppointmentStatus_str Cancelled = ''Cancelled''"

record Appointment =
  a_client_id :: "string option"
  a_service :: string
  a_start_time :: datetime
  a_end_time :: datetime
  a_location :: "string option"
  a_notes :: "string option"
  a_status :: AppointmentStatus
  a_case_id :: "string option"

text \<open>The constructor of the model: \<^verbatim>\<open>status\<close> is \<^verbatim>\<open>Field("Scheduled")\<close>.\<close>

definition Appointment_of ::
  "string option \<Rightarrow> string \<Rightarrow> datetime \<Rightarrow> datetime \<Rightarrow> string option \<Rightarrow> string option
     \<Rightarrow> AppointmentStatus option \<Rightarrow> string option \<Rightarrow> Appointment" where
  "Appointment_of client service start stop location notes status case_ref =
     \<lparr>a_client_id = client, a_service = service, a_start_time = start, a_end_time = stop,
      a_location = location, a_notes = notes,
      a_status = (case status of None \<Rightarrow> Scheduled | Some st \<Rightarrow> st),
      a_case_id = case_ref\<rparr>"

datatype ActorRole = Notary | Assistant | Client_role | System

fun ActorRole_str :: "ActorRole \<Rightarrow> string" where
  "ActorRole_str Notary = ''notary''"
| "ActorRole_str Assistant = ''assistant''"
| "ActorRole_str Client_role = ''client''"
| "ActorRole_str System = ''system''"

record AuditLog =
  l_actor_role :: ActorRole
  l_actor_id :: "string option"
  l_action :: string
  l_entity :: string
  l_entity_id :: "string option"
  l_details :: "(string \<times> string) list option"

subsection \<open>The database\<close>

text \<open>
  A collection is the list of its documents in insertion order. A stored document
  is the dump of its model (an enumerated field as its text) together with the
  identifier and the two timestamps the store adds.
\<close>

record client_doc =
  client_id :: ObjectId
  client_fields :: Client
  client_created_at :: datetime
  client_updated_at :: datetime

record case_doc =
  case_id :: ObjectId
  case_client_id :: string
  case_title :: string
  case_type :: string
  case_status :: string
  case_description :: "string option"
  case_assigned_to :: "string option"
  case_due_date :: "datetime option"
  case_created_at :: datetime
  case_updated_at :: datetime

record appointment_doc =
  appt_id :: ObjectId
  appt_client_id :: "string option"
  appt_service :: string
  start_time :: datetime
  end_time :: datetime
  appt_location :: "string option"
  appt_notes :: "string option"
  appt_status :: string
  appt_case_id :: "string option"
  appt_created_at :: datetime
  appt_updated_at :: datetime

record auditlog_doc =
  log_id :: ObjectId
  actor_role :: string
  actor_id :: "string option"
  action :: string
  entity :: string
  entity_id :: "string option"
  details :: "(string \<times> string) list option"
  created_at :: datetime
  log_updated_at :: datetime

record database =
  db_client :: "client_doc list"
  db_case :: "case_doc list"
  db_appointment :: "appointment_doc list"
  db_auditlog :: "auditlog_doc list"
  db_next_id :: nat

fun bytes_be :: "nat \<Rightarrow> nat \<Rightarrow> nat list" where
  "bytes_be 0 n = []"
| "bytes_be (Suc k) n = bytes_be k (n div 256) @ [n mod 256]"

definition new_ObjectId :: "nat \<Rightarrow> ObjectId" where
  "new_ObjectId n = bytes_be 12 n"

text \<open>
  Modelled from the spec: \<^verbatim>\<open>create_document\<close> of \<^verbatim>\<open>database.py\<close>, which is not among
  the sources. The spec's Entity Store has \<^verbatim>\<open>create(recordType, record) -> id\<close>, its
  records are keyed by opaque identifiers and carry created/updated timestamps:
  the record is appended to the collection named by the record type under the
  next unused identifier, stamped with the time of the call, and the identifier
  comes back as text. There is one function per collection the endpoints write;
  \<open>case_document\<close> and its siblings are the document stored for a model (its
  fields, an enumerated one as its text, with the identifier and the timestamps).
\<close>

definition client_document :: "ObjectId \<Rightarrow> Client \<Rightarrow> datetime \<Rightarrow> client_doc" where
  "client_document i data now =
     \<lparr>client_id = i, client_fields = data, client_created_at = now, client_updated_at = now\<rparr>"

definition case_document :: "ObjectId \<Rightarrow> Case \<Rightarrow> datetime \<Rightarrow> case_doc" where
  "case_document i data now =
     \<lparr>case_id = i, case_client_id = c_client_id data, case_title = c_title data,
      case_type = c_type data, case_status = CaseStatus_str (c_status data),
      case_description = c_description data, case_assigned_to = c_assigned_to data,
      case_due_date = c_due_date data, case_created_at = now, case_updated_at = now\<rparr>"

definition appointment_document :: "ObjectId \<Rightarrow> Appointment \<Rightarrow> datetime \<Rightarrow> appointment_doc" where
  "appointment_document i data now =
     \<lparr>appt_id = i, appt_client_id = a_client_id data, appt_service = a_service data,
      start_time = a_start_time data, end_time = a_end_time data,
      appt_location = a_location data, appt_notes = a_notes data,
      appt_status = AppointmentStatus_str (a_status data), appt_case_id = a_case_id data,
      appt_created_at = now, appt_updated_at = now\<rparr>"

definition auditlog_document :: "ObjectId \<Rightarrow> AuditLog \<Rightarrow> datetime \<Rightarrow> auditlog_doc" where
  "auditlog_document i data now =
     \<lparr>log_id = i, actor_role = ActorRole_str (l_actor_role data), actor_id = l_actor_id data,
      action = l_action data, entity = l_entity data, entity_id = l_entity_id data,
      details = l_details data, created_at = now, log_updated_at = now\<rparr>"

definition create_document_client :: "Client \<Rightarrow> datetime \<Rightarrow> database \<Rightarrow> string \<times> database" where
  "create_document_client data now db =
     (let i = new_ObjectId (db_next_id db)
      in (str_ObjectId i,
          db\<lparr>db_client := db_client db @ [client_document i data now],
             db_next_id := db_next_id db + 1\<rparr>))"

definition create_document_case :: "Case \<Rightarrow> datetime \<Rightarrow> database \<Rightarrow> string \<times> database" where
  "create_document_case data now db =
     (let i = new_ObjectId (db_next_id db)
      in (str_ObjectId i,
          db\<lparr>db_case := db_case db @ [case_document i data now],
             db_next_id := db_next_id db + 1\<rparr>))"

definition create_document_appointment ::
  "Appointment \<Rightarrow> datetime \<Rightarrow> database \<Rightarrow> string \<times> database" where
  "create_document_appointment data now db =
     (let i = new_ObjectId (db_next_id db)
      in (str_ObjectId i,
          db\<lparr>db_appointment := db_appointment db @ [appointment_document i data now],
             db_next_id := db_next_id db + 1\<rparr>))"

definition create_document_auditlog ::
  "AuditLog \<Rightarrow> datetime \<Rightarrow> database \<Rightarrow> string \<times> database" where
  "create_document_auditlog data now db =
     (let i = new_ObjectId (db_next_id db)
      in (str_ObjectId i,
          db\<lparr>db_auditlog := db_auditlog db @ [auditlog_document i data now],
             db_next_id := db_next_id db + 1\<rparr>))"

text \<open>The \<^verbatim>\<open>AuditLog(...)\<close> calls of main.py name four fields; the others default to \<^verbatim>\<open>None\<close>.\<close>

definition AuditLog_of ::
  "ActorRole \<Rightarrow> string \<Rightarrow> string \<Rightarrow> string \<Rightarrow> (string \<times> string) list option \<Rightarrow> AuditLog" where
  "AuditLog_of role act ent ent_id dets =
     \<lparr>l_actor_role = role, l_actor_id = None, l_action = act, l_entity = ent,
      l_entity_id = Some ent_id, l_details = dets\<rparr>"

section \<open>Endpoints (main.py)\<close>

text \<open>
  An endpoint that writes returns its outcome together with the database it leaves
  behind, also when it raises. It reads the clock once per document it writes:
  \<open>t1\<close> stamps the record, \<open>t2\<close> its audit entry. An endpoint guarded by
  \<^verbatim>\<open>require_role\<close> takes the X-Role header and checks it before its body runs.
\<close>

subsection \<open>Clients and cases\<close>

definition create_client ::
  "string option \<Rightarrow> Client \<Rightarrow> datetime \<Rightarrow> datetime \<Rightarrow> database
     \<Rightarrow> (HTTPException + string) \<times> database" where
  "create_client x_role payload t1 t2 db =
     (case require_role staff (get_role x_role) of
        Inl e \<Rightarrow> (Inl e, db)
      | Inr _ \<Rightarrow>
          (let (new_id, db1) = create_document_client payload t1 db;
               (_, db2) = create_document_auditlog
                            (AuditLog_of Assistant ''create'' ''client'' new_id None) t2 db1
           in (Inr new_id, db2)))"

text \<open>\<^verbatim>\<open>db["client"].find_one({"_id": i})\<close>\<close>

definition find_one_client :: "ObjectId \<Rightarrow> database \<Rightarrow> client_doc option" where
  "find_one_client i db = find (\<lambda>d. client_id d = i) (db_client db)"

text \<open>The guard at the head of \<^verbatim>\<open>create_case\<close>, run only for a non-empty \<^verbatim>\<open>client_id\<close>.\<close>

definition ensure_client_exists :: "Case \<Rightarrow> database \<Rightarrow> HTTPException + unit" where
  "ensure_client_exists payload db =
     (if c_client_id payload \<noteq> [] then
        (case oid (c_client_id payload) of
           Inl e \<Rightarrow> Inl e
         | Inr i \<Rightarrow>
             (if find_one_client i db = None
              then Inl (HTTPException 404 ''Client not found'') else Inr ()))
      else Inr ())"

definition create_case ::
  "string option \<Rightarrow> Case \<Rightarrow> datetime \<Rightarrow> datetime \<Rightarrow> database
     \<Rightarrow> (HTTPException + string) \<times> database" where
  "create_case x_role payload t1 t2 db =
     (case require_role staff (get_role x_role) of
        Inl e \<Rightarrow> (Inl e, db)
      | Inr _ \<Rightarrow>
          (case ensure_client_exists payload db of
             Inl e \<Rightarrow> (Inl e, db)
           | Inr _ \<Rightarrow>
               (let (new_id, db1) = create_document_case payload t1 db;
                    (_, db2) = create_document_auditlog
                                 (AuditLog_of Assistant ''create'' ''case'' new_id None) t2 db1
                in (Inr new_id, db2))))"

definition allowed :: "string list" where
  "allowed = [''New'', ''Draft'', ''Waiting Signature'', ''Completed'', ''Archived'']"

text \<open>
  \<^verbatim>\<open>update_one({"_id": i}, {"$set": {"status": s, "updated_at": now}})\<close>: the first
  document with that identifier is changed; the result is the number matched.
\<close>

fun update_one_status ::
  "ObjectId \<Rightarrow> string \<Rightarrow> datetime \<Rightarrow> case_doc list \<Rightarrow> nat \<times> case_doc list" where
  "update_one_status i s now [] = (0, [])"
| "update_one_status i s now (d # ds) =
     (if case_id d = i then (1, d\<lparr>case_status := s, case_updated_at := now\<rparr> # ds)
      else (let (n, ds') = update_one_status i s now ds in (n, d # ds')))"

definition update_case_status ::
  "string option \<Rightarrow> string \<Rightarrow> string \<Rightarrow> datetime \<Rightarrow> datetime \<Rightarrow> database
     \<Rightarrow> (HTTPException + bool) \<times> database" where
  "update_case_status x_role case_id_str status t1 t2 db =
     (case require_role staff (get_role x_role) of
        Inl e \<Rightarrow> (Inl e, db)
      | Inr _ \<Rightarrow>
          (if status \<notin> set allowed then (Inl (HTTPException 400 ''Invalid status''), db)
           else
             (case oid case_id_str of
                Inl e \<Rightarrow> (Inl e, db)
              | Inr i \<Rightarrow>
                  (let (matched_count, cases) = update_one_status i status t1 (db_case db);
                       db1 = db\<lparr>db_case := cases\<rparr>
                   in if matched_count = 0
                      then (Inl (HTTPException 404 ''Case not found''), db1)
                      else
                        (let (_, db2) = create_document_auditlog
                                          (AuditLog_of Assistant ''update_status'' ''case''
                                             case_id_str (Some [(''status'', status)])) t2 db1
                         in (Inr True, db2))))))"

subsection \<open>Appointments\<close>

text \<open>The query of the conflict check: \<^verbatim>\<open>start_time < end\<close> and \<^verbatim>\<open>end_time > start\<close>.\<close>

definition conflict_filter :: "Appointment \<Rightarrow> appointment_doc \<Rightarrow> bool" where
  "conflict_filter payload d \<longleftrightarrow>
     start_time d < a_end_time payload \<and> end_time d > a_start_time payload"

definition public_create_appointment ::
  "Appointment \<Rightarrow> datetime \<Rightarrow> datetime \<Rightarrow> database
     \<Rightarrow> (HTTPException + string) \<times> database" where
  "public_create_appointment payload t1 t2 db =
     (if a_end_time payload \<le> a_start_time payload
      then (Inl (HTTPException 400 ''Invalid time range''), db)
      else
        (case find (conflict_filter payload) (db_appointment db) of
           Some conflict \<Rightarrow> (Inl (HTTPException 409 ''Time slot not available''), db)
         | None \<Rightarrow>
             (let (new_id, db1) = create_document_appointment payload t1 db;
                  (_, db2) = create_document_auditlog
                               (AuditLog_of Client_role ''book'' ''appointment'' new_id None) t2 db1
              in (Inr new_id, db2))))"

text \<open>
  The filter \<^verbatim>\<open>list_appointments\<close> builds from \<^verbatim>\<open>day\<close>: none when the parameter is
  absent or empty, the day's range when it parses, a 400 on any exception.
\<close>

definition day_range :: "datetime \<Rightarrow> datetime \<Rightarrow> appointment_doc \<Rightarrow> bool" where
  "day_range start end d \<longleftrightarrow> start \<le> start_time d \<and> start_time d < end"

definition day_filter :: "string option \<Rightarrow> HTTPException + (appointment_doc \<Rightarrow> bool)" where
  "day_filter day =
     (case day of
        None \<Rightarrow> Inr (\<lambda>d. True)
      | Some s \<Rightarrow>
          if s = [] then Inr (\<lambda>d. True)
          else
            (case strptime_ymd s of
               None \<Rightarrow> Inl (HTTPException 400 ''Invalid day format'')
             | Some ymd \<Rightarrow>
                 (let start = datetime_ymd ymd in
                    case add_one_day start of
                      None \<Rightarrow> Inl (HTTPException 400 ''Invalid day format'')
                    | Some end \<Rightarrow> Inr (day_range start end))))"

text \<open>
  \<^verbatim>\<open>find(filt).sort("start_time", 1)\<close> as a stable sort of the matching documents. The
  response writes each identifier as text, which the model leaves in the document.
\<close>

definition list_appointments ::
  "string option \<Rightarrow> string option \<Rightarrow> database \<Rightarrow> HTTPException + appointment_doc list" where
  "list_appointments day x_role db =
     (case require_role staff (get_role x_role) of
        Inl e \<Rightarrow> Inl e
      | Inr role \<Rightarrow>
          (case day_filter day of
             Inl e \<Rightarrow> Inl e
           | Inr filt \<Rightarrow> Inr (sort_key start_time (filter filt (db_appointment db)))))"

subsection \<open>Dashboard\<close>

record kpis =
  appointments_today :: nat
  open_cases :: nat
  completed_cases :: nat

record dashboard_response =
  kpis :: kpis
  recent_activity :: "auditlog_doc list"

text \<open>\<^verbatim>\<open>count_documents\<close> counts the documents a filter accepts.\<close>

definition count_documents :: "('a \<Rightarrow> bool) \<Rightarrow> 'a list \<Rightarrow> nat" where
  "count_documents filt coll = length (filter filt coll)"

text \<open>
  \<^verbatim>\<open>find({}).sort("created_at", -1).limit(10)\<close>: the order among entries of equal
  timestamp is the store's; here it is the reverse of the stable ascending sort.
  Nothing catches an exception in this endpoint.
\<close>

definition dashboard ::
  "string option \<Rightarrow> datetime \<Rightarrow> database \<Rightarrow> HTTPException + dashboard_response" where
  "dashboard x_role utcnow db =
     (case require_role staff (get_role x_role) of
        Inl e \<Rightarrow> Inl e
      | Inr role \<Rightarrow>
          (case strptime_ymd (strftime_ymd utcnow) of
             None \<Rightarrow> Inl internal_server_error
           | Some ymd \<Rightarrow>
               (let start = datetime_ymd ymd in
                  case add_one_day start of
                    None \<Rightarrow> Inl internal_server_error
                  | Some end \<Rightarrow>
                      (let appts_today = count_documents (day_range start end) (db_appointment db);
                           open_cases = count_documents
                             (\<lambda>c. case_status c \<in> set [''New'', ''Draft'', ''Waiting Signature''])
                             (db_case db);
                           completed_month = count_documents
                             (\<lambda>c. case_status c = ''Completed'') (db_case db);
                           recent_activity = take 10 (rev (sort_key created_at (db_auditlog db)))
                       in Inr \<lparr>kpis = \<lparr>appointments_today = appts_today,
                                       open_cases = open_cases,
                                       completed_cases = completed_month\<rparr>,
                               recent_activity = recent_activity\<rparr>))))"

section \<open>Example data\<close>

text \<open>
  The scenario of the specification: bookings on 15 January 2024 from 09:00 to 10:00,
  from 09:30 to 10:30 and from 10:00 to 11:00, against a database that holds nothing.
\<close>

definition empty_db :: database where
  "empty_db = \<lparr>db_client = [], db_case = [], db_appointment = [], db_auditlog = [], db_next_id = 0\<rparr>"

definition noon :: datetime where
  "noon = (2024, 1, 10, 12, 0, 0, 0)"

definition slot_0900 :: Appointment where
  "slot_0900 = Appointment_of None ''signing'' (2024, 1, 15, 9, 0, 0, 0) (2024, 1, 15, 10, 0, 0, 0)
                 None None None None"

definition slot_0930 :: Appointment where
  "slot_0930 = Appointment_of None ''signing'' (2024, 1, 15, 9, 30, 0, 0) (2024, 1, 15, 10, 30, 0, 0)
                 None None None None"

definition slot_1000 :: Appointment where
  "slot_1000 = Appointment_of None ''signing'' (2024, 1, 15, 10, 0, 0, 0) (2024, 1, 15, 11, 0, 0, 0)
                 None None None None"

definition cancelled_0900 :: Appointment where
  "cancelled_0900 = Appointment_of None ''signing'' (2024, 1, 15, 9, 0, 0, 0) (2024, 1, 15, 10, 0, 0, 0)
                 None None (Some Cancelled) None"

definition db_cancelled :: database where
  "db_cancelled = snd (public_create_appointment cancelled_0900 noon noon empty_db)"

definition completed_0900 :: Appointment where
  "completed_0900 = Appointment_of None ''signing'' (2024, 1, 15, 9, 0, 0, 0) (2024, 1, 15, 10, 0, 0, 0)
                 None None (Some Appt_Completed) None"

definition john :: Client where
  "john = \<lparr>cl_first_name = ''John'', cl_last_name = ''Doe'', cl_email = ''john@example.com'',
           cl_phone = None, cl_address = None, cl_city = None, cl_country = None,
           cl_notes = None\<rparr>"

definition db_one_client :: database where
  "db_one_client = snd (create_client (Some ''assistant'') john noon noon empty_db)"

definition new_case :: Case where
  "new_case = Case_of ''000000000000000000000000'' ''Power of Attorney for John Doe''
                ''Power of Attorney'' None None None None"

definition draft_case :: Case where
  "draft_case = Case_of ''000000000000000000000000'' ''Power of Attorney for John Doe''
                  ''Power of Attorney'' (Some Draft) None None None"

definition malformed_client_case :: Case where
  "malformed_client_case = Case_of ''abc'' ''Affidavit'' ''Affidavit'' None None None None"

definition unknown_client_case :: Case where
  "unknown_client_case = Case_of ''000000000000000000000005'' ''Affidavit'' ''Affidavit''
                           None None None None"

definition walk_in_case :: Case where
  "walk_in_case = Case_of [] ''Affidavit'' ''Affidavit'' None None None None"

definition db_one_case :: database where
  "db_one_case = snd (create_case (Some ''assistant'') new_case noon noon db_one_client)"

definition slot_next_day :: Appointment where
  "slot_next_day = Appointment_of None ''signing'' (2024, 1, 16, 9, 0, 0, 0) (2024, 1, 16, 10, 0, 0, 0)
                     None None None None"

definition db_two_days :: database where
  "db_two_days =
     snd (public_create_appointment slot_0900 noon noon
       (snd (public_create_appointment slot_next_day noon noon
         (snd (public_create_appointment slot_1000 noon noon empty_db)))))"

section \<open>Properties of booking\<close>

lemma pca_invalid:
  "a_end_time p \<le> a_start_time p \<Longrightarrow>
   public_create_appointment p t1 t2 db = (Inl (HTTPException 400 ''Invalid time range''), db)"
  by (simp add: public_create_appointment_def)

lemma pca_conflict:
  assumes "a_start_time p < a_end_time p" and "d \<in> set (db_appointment db)" and "conflict_filter p d"
  shows "public_create_appointment p t1 t2 db = (Inl (HTTPException 409 ''Time slot not available''), db)"
proof -
  from assms(2,3) have "find (conflict_filter p) (db_appointment db) \<noteq> None"
    by (auto simp: find_None_iff)
  then obtain c where "find (conflict_filter p) (db_appointment db) = Some c" by blast
  moreover from assms(1) have "\<not> a_end_time p \<le> a_start_time p" by (simp add: not_le)
  ultimately show ?thesis
    by (simp add: public_create_appointment_def)
qed

lemma pca_free:
  assumes "a_start_time p < a_end_time p" and "\<forall>d\<in>set (db_appointment db). \<not> conflict_filter p d"
  shows "public_create_appointment p t1 t2 db =
     (Inr (str_ObjectId (new_ObjectId (db_next_id db))),
      db\<lparr>db_appointment :=
           db_appointment db @ [appointment_document (new_ObjectId (db_next_id db)) p t1],
         db_auditlog := db_auditlog db @
           [auditlog_document (new_ObjectId (db_next_id db + 1))
             (AuditLog_of Client_role ''book'' ''appointment''
               (str_ObjectId (new_ObjectId (db_next_id db))) None) t2],
         db_next_id := db_next_id db + 2\<rparr>)"
proof -
  from assms(2) have "find (conflict_filter p) (db_appointment db) = None"
    by (auto simp: find_None_iff)
  moreover from assms(1) have "\<not> a_end_time p \<le> a_start_time p" by (simp add: not_le)
  ultimately show ?thesis
    by (simp add: public_create_appointment_def create_document_appointment_def
         create_document_auditlog_def Let_def)
qed

lemma pca_conflict_iff:
  assumes "a_start_time p < a_end_time p"
  shows "(\<exists>e. fst (public_create_appointment p t1 t2 db) = Inl e \<and> ConflictError e) \<longleftrightarrow>
         (\<exists>d\<in>set (db_appointment db). conflict_filter p d)"
proof (cases "\<exists>d\<in>set (db_appointment db). conflict_filter p d")
  case True
  then obtain d where "d \<in> set (db_appointment db)" "conflict_filter p d" by blast
  from pca_conflict[OF assms this] True show ?thesis by (simp add: ConflictError_def)
next
  case False
  then have "\<forall>d\<in>set (db_appointment db). \<not> conflict_filter p d" by blast
  from pca_free[OF assms this] False show ?thesis by simp
qed

lemma conflict_stored:
  "conflict_filter B (appointment_document i A t) \<longleftrightarrow>
     a_start_time A < a_end_time B \<and> a_end_time A > a_start_time B"
  by (simp add: conflict_filter_def appointment_document_def)

lemma pca_free_ex:
  assumes "a_start_time p < a_end_time p" and "\<forall>d\<in>set (db_appointment db). \<not> conflict_filter p d"
  shows "\<exists>new_id db1. public_create_appointment p t1 t2 db = (Inr new_id, db1) \<and>
           db_appointment db1 =
             db_appointment db @ [appointment_document (new_ObjectId (db_next_id db)) p t1]"
  by (simp add: pca_free[OF assms])

lemma pca_then_free:
  assumes A: "a_start_time A < a_end_time A" and B: "a_start_time B < a_end_time B"
    and free: "\<forall>d\<in>set (db_appointment db). \<not> conflict_filter A d \<and> \<not> conflict_filter B d"
    and apart: "\<not> (a_start_time A < a_end_time B \<and> a_end_time A > a_start_time B)"
  shows "\<exists>ia db1 ib db2. public_create_appointment A t1 t2 db = (Inr ia, db1) \<and>
            public_create_appointment B t3 t4 db1 = (Inr ib, db2)"
proof -
  from free have fa: "\<forall>d\<in>set (db_appointment db). \<not> conflict_filter A d" by blast
  from pca_free_ex[OF A fa, of t1 t2] obtain ia db1 where
    a: "public_create_appointment A t1 t2 db = (Inr ia, db1)" and
    appts: "db_appointment db1 =
              db_appointment db @ [appointment_document (new_ObjectId (db_next_id db)) A t1]"
    by blast
  have "\<forall>d\<in>set (db_appointment db1). \<not> conflict_filter B d"
  proof
    fix d assume "d \<in> set (db_appointment db1)"
    then have "d \<in> set (db_appointment db) \<or> d = appointment_document (new_ObjectId (db_next_id db)) A t1"
      by (auto simp: appts)
    then show "\<not> conflict_filter B d"
      using free apart by (auto simp only: conflict_stored)
  qed
  from pca_free_ex[OF B this, of t3 t4] obtain ib db2 where
    "public_create_appointment B t3 t4 db1 = (Inr ib, db2)" by blast
  with a show ?thesis by blast
qed

lemma pca_then_conflict:
  assumes A: "a_start_time A < a_end_time A" and B: "a_start_time B < a_end_time B"
    and free: "\<forall>d\<in>set (db_appointment db). \<not> conflict_filter A d \<and> \<not> conflict_filter B d"
    and overlap: "a_start_time A < a_end_time B \<and> a_end_time A > a_start_time B"
  shows "\<exists>ia db1 e. public_create_appointment A t1 t2 db = (Inr ia, db1) \<and>
            public_create_appointment B t3 t4 db1 = (Inl e, db1) \<and> ConflictError e"
proof -
  from free have fa: "\<forall>d\<in>set (db_appointment db). \<not> conflict_filter A d" by blast
  from pca_free_ex[OF A fa, of t1 t2] obtain ia db1 where
    a: "public_create_appointment A t1 t2 db = (Inr ia, db1)" and
    appts: "db_appointment db1 =
              db_appointment db @ [appointment_document (new_ObjectId (db_next_id db)) A t1]"
    by blast
  have mem: "appointment_document (new_ObjectId (db_next_id db)) A t1 \<in> set (db_appointment db1)"
    by (simp add: appts)
  have cf: "conflict_filter B (appointment_document (new_ObjectId (db_next_id db)) A t1)"
    using overlap by (simp only: conflict_stored)
  have b: "public_create_appointment B t3 t4 db1 =
          (Inl (HTTPException 409 ''Time slot not available''), db1)"
    by (rule pca_conflict[OF B mem cf])
  have "ConflictError (HTTPException 409 ''Time slot not available'')"
    by (simp add: ConflictError_def)
  with a b show ?thesis by blast
qed

lemma pca_Inr_D:
  assumes "public_create_appointment p t1 t2 db = (Inr new_id, db')"
  shows "a_start_time p < a_end_time p \<and> (\<forall>d\<in>set (db_appointment db). \<not> conflict_filter p d)"
proof (intro conjI ballI notI)
  show "a_start_time p < a_end_time p"
  proof (rule ccontr)
    assume "\<not> a_start_time p < a_end_time p"
    then have "a_end_time p \<le> a_start_time p" by (simp add: not_less)
    from pca_invalid[OF this, of t1 t2 db] assms show False by simp
  qed
  then have v: "a_start_time p < a_end_time p" .
  fix d assume "d \<in> set (db_appointment db)" "conflict_filter p d"
  from pca_conflict[OF v this, of t1 t2] assms show False by simp
qed

lemma first_ObjectId: "str_ObjectId (new_ObjectId 0) = ''000000000000000000000000''"
  by code_simp

lemma empty_db_free: "\<forall>d\<in>set (db_appointment empty_db). \<not> conflict_filter p d"
  by (simp add: empty_db_def)

lemma slot_0900_valid: "a_start_time slot_0900 < a_end_time slot_0900"
  by (simp add: slot_0900_def Appointment_of_def)

lemma slot_0930_valid: "a_start_time slot_0930 < a_end_time slot_0930"
  by (simp add: slot_0930_def Appointment_of_def)

lemma slot_1000_valid: "a_start_time slot_1000 < a_end_time slot_1000"
  by (simp add: slot_1000_def Appointment_of_def)

lemma cancelled_0900_valid: "a_start_time cancelled_0900 < a_end_time cancelled_0900"
  by (simp add: cancelled_0900_def Appointment_of_def)

lemma db_cancelled_appointments:
  "db_appointment db_cancelled = [appointment_document (new_ObjectId 0) cancelled_0900 noon]"
  unfolding db_cancelled_def pca_free[OF cancelled_0900_valid empty_db_free]
  by (simp add: empty_db_def)

text \<open>
  C2. A request with \<open>end_time > start_time\<close> fails with the 409 exactly when a stored
  appointment overlaps it (\<open>start_time < end\<close> and \<open>end_time > start\<close>), and
  succeeds when none does. For two such requests \<open>A\<close> and \<open>B\<close> and a database
  in which nothing overlaps either: when \<open>A\<close> ends where \<open>B\<close> starts, booking
  one after the other succeeds twice, in both orders; when they overlap, the first
  booked succeeds and the second fails with the 409, in both orders, and the
  failed call leaves the database as it was.
\<close>

theorem booking_conflict_iff_overlap:
  assumes A: "a_start_time A < a_end_time A" and B: "a_start_time B < a_end_time B"
  shows "((\<exists>e. fst (public_create_appointment A t1 t2 db) = Inl e \<and> ConflictError e) \<longleftrightarrow>
          (\<exists>d\<in>set (db_appointment db). start_time d < a_end_time A \<and> end_time d > a_start_time A))
    \<and> ((\<exists>d\<in>set (db_appointment db). start_time d < a_end_time A \<and> end_time d > a_start_time A) \<or>
        (\<exists>new_id db'. public_create_appointment A t1 t2 db = (Inr new_id, db')))
    \<and> ((\<forall>d\<in>set (db_appointment db). \<not> conflict_filter A d \<and> \<not> conflict_filter B d) \<longrightarrow>
         (a_end_time A = a_start_time B \<longrightarrow>
            (\<exists>ia db1 ib db2. public_create_appointment A t1 t2 db = (Inr ia, db1) \<and>
                 public_create_appointment B t3 t4 db1 = (Inr ib, db2)) \<and>
            (\<exists>ib db1 ia db2. public_create_appointment B t1 t2 db = (Inr ib, db1) \<and>
                 public_create_appointment A t3 t4 db1 = (Inr ia, db2))) \<and>
         (a_start_time A < a_end_time B \<and> a_end_time A > a_start_time B \<longrightarrow>
            (\<exists>ia db1 e. public_create_appointment A t1 t2 db = (Inr ia, db1) \<and>
                 public_create_appointment B t3 t4 db1 = (Inl e, db1) \<and> ConflictError e) \<and>
            (\<exists>ib db1 e. public_create_appointment B t1 t2 db = (Inr ib, db1) \<and>
                 public_create_appointment A t3 t4 db1 = (Inl e, db1) \<and> ConflictError e)))"
proof (intro conjI impI)
  show "(\<exists>e. fst (public_create_appointment A t1 t2 db) = Inl e \<and> ConflictError e) \<longleftrightarrow>
          (\<exists>d\<in>set (db_appointment db). start_time d < a_end_time A \<and> end_time d > a_start_time A)"
    using pca_conflict_iff[OF A] by (simp add: conflict_filter_def)
next
  show "(\<exists>d\<in>set (db_appointment db). start_time d < a_end_time A \<and> end_time d > a_start_time A) \<or>
        (\<exists>new_id db'. public_create_appointment A t1 t2 db = (Inr new_id, db'))"
  proof (cases "\<exists>d\<in>set (db_appointment db). conflict_filter A d")
    case True
    then show ?thesis by (simp add: conflict_filter_def)
  next
    case False
    then have "\<forall>d\<in>set (db_appointment db). \<not> conflict_filter A d" by blast
    from pca_free_ex[OF A this, of t1 t2] show ?thesis by blast
  qed
next
  assume free: "\<forall>d\<in>set (db_appointment db). \<not> conflict_filter A d \<and> \<not> conflict_filter B d"
    and touch: "a_end_time A = a_start_time B"
  from touch have "\<not> (a_start_time A < a_end_time B \<and> a_end_time A > a_start_time B)" by simp
  from pca_then_free[OF A B free this]
  show "\<exists>ia db1 ib db2. public_create_appointment A t1 t2 db = (Inr ia, db1) \<and>
                 public_create_appointment B t3 t4 db1 = (Inr ib, db2)" .
  from free have free': "\<forall>d\<in>set (db_appointment db). \<not> conflict_filter B d \<and> \<not> conflict_filter A d"
    by blast
  from touch have "\<not> (a_start_time B < a_end_time A \<and> a_end_time B > a_start_time A)" by simp
  from pca_then_free[OF B A free' this]
  show "\<exists>ib db1 ia db2. public_create_appointment B t1 t2 db = (Inr ib, db1) \<and>
                 public_create_appointment A t3 t4 db1 = (Inr ia, db2)" .
next
  assume free: "\<forall>d\<in>set (db_appointment db). \<not> conflict_filter A d \<and> \<not> conflict_filter B d"
    and ov: "a_start_time A < a_end_time B \<and> a_end_time A > a_start_time B"
  from pca_then_conflict[OF A B free ov]
  show "\<exists>ia db1 e. public_create_appointment A t1 t2 db = (Inr ia, db1) \<and>
                 public_create_appointment B t3 t4 db1 = (Inl e, db1) \<and> ConflictError e" .
  from free have free': "\<forall>d\<in>set (db_appointment db). \<not> conflict_filter B d \<and> \<not> conflict_filter A d"
    by blast
  from ov have "a_start_time B < a_end_time A \<and> a_end_time B > a_start_time A" by simp
  from pca_then_conflict[OF B A free' this]
  show "\<exists>ib db1 e. public_create_appointment B t1 t2 db = (Inr ib, db1) \<and>
                 public_create_appointment A t3 t4 db1 = (Inl e, db1) \<and> ConflictError e" .
qed

theorem booking_conflict_iff_overlap_witness:
  "a_start_time slot_0900 < a_end_time slot_0900 \<and>
   a_start_time slot_0930 < a_end_time slot_0930 \<and>
   a_start_time slot_1000 < a_end_time slot_1000 \<and>
   db_appointment empty_db = [] \<and>
   a_end_time slot_0900 = a_start_time slot_1000 \<and>
   a_start_time slot_0900 < a_end_time slot_0930 \<and>
   a_end_time slot_0900 > a_start_time slot_0930 \<and>
   (\<nexists>e. fst (public_create_appointment slot_0900 noon noon empty_db) = Inl e \<and> ConflictError e) \<and>
   (\<exists>ia db1 ib db2. public_create_appointment slot_0900 noon noon empty_db = (Inr ia, db1) \<and>
        public_create_appointment slot_1000 noon noon db1 = (Inr ib, db2)) \<and>
   (\<exists>ib db1 ia db2. public_create_appointment slot_1000 noon noon empty_db = (Inr ib, db1) \<and>
        public_create_appointment slot_0900 noon noon db1 = (Inr ia, db2)) \<and>
   (\<exists>ia db1 e. public_create_appointment slot_0900 noon noon empty_db = (Inr ia, db1) \<and>
        public_create_appointment slot_0930 noon noon db1 = (Inl e, db1) \<and> ConflictError e) \<and>
   (\<exists>ib db1 e. public_create_appointment slot_0930 noon noon empty_db = (Inr ib, db1) \<and>
        public_create_appointment slot_0900 noon noon db1 = (Inl e, db1) \<and> ConflictError e)"
proof -
  have touch: "a_end_time slot_0900 = a_start_time slot_1000"
    by (simp add: slot_0900_def slot_1000_def Appointment_of_def)
  have ov: "a_start_time slot_0900 < a_end_time slot_0930 \<and>
            a_end_time slot_0900 > a_start_time slot_0930"
    by (simp add: slot_0900_def slot_0930_def Appointment_of_def)
  have none: "db_appointment empty_db = []"
    by (simp add: empty_db_def)
  have free: "\<forall>d\<in>set (db_appointment empty_db). \<not> conflict_filter A d \<and> \<not> conflict_filter B d"
    for A B by (simp add: none)
  note t = booking_conflict_iff_overlap[OF slot_0900_valid slot_1000_valid,
             of noon noon empty_db noon noon]
  note o = booking_conflict_iff_overlap[OF slot_0900_valid slot_0930_valid,
             of noon noon empty_db noon noon]
  from t have "\<nexists>e. fst (public_create_appointment slot_0900 noon noon empty_db) = Inl e \<and>
                   ConflictError e"
    by (simp add: none)
  moreover from t free touch
  have "(\<exists>ia db1 ib db2. public_create_appointment slot_0900 noon noon empty_db = (Inr ia, db1) \<and>
            public_create_appointment slot_1000 noon noon db1 = (Inr ib, db2)) \<and>
        (\<exists>ib db1 ia db2. public_create_appointment slot_1000 noon noon empty_db = (Inr ib, db1) \<and>
            public_create_appointment slot_0900 noon noon db1 = (Inr ia, db2))"
    by blast
  moreover from o free ov
  have "(\<exists>ia db1 e. public_create_appointment slot_0900 noon noon empty_db = (Inr ia, db1) \<and>
            public_create_appointment slot_0930 noon noon db1 = (Inl e, db1) \<and> ConflictError e) \<and>
        (\<exists>ib db1 e. public_create_appointment slot_0930 noon noon empty_db = (Inr ib, db1) \<and>
            public_create_appointment slot_0900 noon noon db1 = (Inl e, db1) \<and> ConflictError e)"
    by blast
  ultimately show ?thesis
    using slot_0900_valid slot_0930_valid slot_1000_valid none touch ov by blast
qed

text \<open>
  C1, as the code has it. The conflict check reads no status: a request with
  \<open>end_time > start_time\<close> that overlaps a stored appointment whose status is
  \<^verbatim>\<open>Cancelled\<close> fails with the 409 and leaves the database as it was.
\<close>

theorem cancelled_appointment_blocks_booking:
  assumes "a_start_time p < a_end_time p"
    and "d \<in> set (db_appointment db)"
    and "appt_status d = ''Cancelled''"
    and "start_time d < a_end_time p" and "end_time d > a_start_time p"
  shows "\<exists>e. public_create_appointment p t1 t2 db = (Inl e, db) \<and> ConflictError e"
proof -
  from assms(4,5) have "conflict_filter p d"
    by (simp add: conflict_filter_def)
  from pca_conflict[OF assms(1,2) this, of t1 t2] show ?thesis
    by (simp add: ConflictError_def)
qed

theorem cancelled_appointment_blocks_booking_witness:
  "a_start_time slot_0930 < a_end_time slot_0930 \<and>
   appointment_document (new_ObjectId 0) cancelled_0900 noon \<in> set (db_appointment db_cancelled) \<and>
   appt_status (appointment_document (new_ObjectId 0) cancelled_0900 noon) = ''Cancelled'' \<and>
   start_time (appointment_document (new_ObjectId 0) cancelled_0900 noon) < a_end_time slot_0930 \<and>
   end_time (appointment_document (new_ObjectId 0) cancelled_0900 noon) > a_start_time slot_0930 \<and>
   (\<exists>e. public_create_appointment slot_0930 noon noon db_cancelled = (Inl e, db_cancelled) \<and>
        ConflictError e)"
proof -
  let ?d = "appointment_document (new_ObjectId 0) cancelled_0900 noon"
  have m: "?d \<in> set (db_appointment db_cancelled)"
    by (simp add: db_cancelled_appointments)
  have s: "appt_status ?d = ''Cancelled''"
    by (simp add: appointment_document_def cancelled_0900_def Appointment_of_def)
  have a: "start_time ?d < a_end_time slot_0930"
    by (simp add: appointment_document_def cancelled_0900_def slot_0930_def Appointment_of_def)
  have b: "end_time ?d > a_start_time slot_0930"
    by (simp add: appointment_document_def cancelled_0900_def slot_0930_def Appointment_of_def)
  from cancelled_appointment_blocks_booking[OF slot_0930_valid m s a b, of noon noon]
  show ?thesis using slot_0930_valid m s a b by blast
qed

text \<open>
  C1 as stated fails: after a booking that carries the status \<^verbatim>\<open>Cancelled\<close> the
  database holds that one appointment, the request from 09:30 to 10:30 overlaps
  it and nothing else, and it is refused with the 409.
\<close>

theorem cancelled_excluded_counterexample:
  "map appt_status (db_appointment db_cancelled) = [''Cancelled''] \<and>
   map (conflict_filter slot_0930) (db_appointment db_cancelled) = [True] \<and>
   a_start_time slot_0930 < a_end_time slot_0930 \<and>
   public_create_appointment slot_0930 noon noon db_cancelled =
     (Inl (HTTPException 409 ''Time slot not available''), db_cancelled) \<and>
   ConflictError (HTTPException 409 ''Time slot not available'')"
proof -
  let ?d = "appointment_document (new_ObjectId 0) cancelled_0900 noon"
  have s: "appt_status ?d = ''Cancelled''"
    by (simp add: appointment_document_def cancelled_0900_def Appointment_of_def)
  have c: "conflict_filter slot_0930 ?d"
    by (simp add: conflict_filter_def appointment_document_def cancelled_0900_def slot_0930_def
        Appointment_of_def)
  have m: "?d \<in> set (db_appointment db_cancelled)"
    by (simp add: db_cancelled_appointments)
  note r = pca_conflict[OF slot_0930_valid m c, of noon noon]
  show ?thesis
    using s c r slot_0930_valid by (simp add: db_cancelled_appointments ConflictError_def)
qed

text \<open>
  C4, as the code has it. A successful booking appends one appointment, stored
  under the identifier it returns, whose status is the one the request carries:
  \<^verbatim>\<open>Scheduled\<close> when the request names none, the named status otherwise.
\<close>

theorem booked_appointment_status:
  assumes "public_create_appointment (Appointment_of c s st en l n status k) t1 t2 db
             = (Inr new_id, db')"
  shows "\<exists>doc. db_appointment db' = db_appointment db @ [doc] \<and>
               str_ObjectId (appt_id doc) = new_id \<and>
               appt_status doc =
                 (case status of None \<Rightarrow> ''Scheduled'' | Some x \<Rightarrow> AppointmentStatus_str x)"
proof -
  let ?p = "Appointment_of c s st en l n status k"
  from pca_Inr_D[OF assms] have v: "a_start_time ?p < a_end_time ?p"
    and f: "\<forall>d\<in>set (db_appointment db). \<not> conflict_filter ?p d" by blast+
  from pca_free[OF v f, of t1 t2] assms
  have "new_id = str_ObjectId (new_ObjectId (db_next_id db))"
    and "db_appointment db' =
           db_appointment db @ [appointment_document (new_ObjectId (db_next_id db)) ?p t1]"
    by auto
  moreover have "appt_status (appointment_document (new_ObjectId (db_next_id db)) ?p t1) =
      (case status of None \<Rightarrow> ''Scheduled'' | Some x \<Rightarrow> AppointmentStatus_str x)"
    by (simp add: appointment_document_def Appointment_of_def split: option.split)
  moreover have "appt_id (appointment_document (new_ObjectId (db_next_id db)) ?p t1) =
      new_ObjectId (db_next_id db)"
    by (simp add: appointment_document_def)
  ultimately show ?thesis by simp
qed

theorem booked_appointment_status_witness:
  "public_create_appointment
     (Appointment_of None ''signing'' (2024, 1, 15, 9, 0, 0, 0) (2024, 1, 15, 10, 0, 0, 0)
        None None None None) noon noon empty_db
   = (Inr ''000000000000000000000000'', snd (public_create_appointment slot_0900 noon noon empty_db)) \<and>
   (\<exists>doc. db_appointment (snd (public_create_appointment slot_0900 noon noon empty_db)) =
            db_appointment empty_db @ [doc] \<and>
          str_ObjectId (appt_id doc) = ''000000000000000000000000'' \<and>
          appt_status doc = ''Scheduled'')"
proof -
  have r: "public_create_appointment
     (Appointment_of None ''signing'' (2024, 1, 15, 9, 0, 0, 0) (2024, 1, 15, 10, 0, 0, 0)
        None None None None) noon noon empty_db
   = (Inr ''000000000000000000000000'', snd (public_create_appointment slot_0900 noon noon empty_db))"
    using pca_free[OF slot_0900_valid empty_db_free, of noon noon] first_ObjectId
    by (simp add: slot_0900_def empty_db_def)
  from booked_appointment_status[OF r] r show ?thesis by simp
qed

text \<open>
  C4 as stated fails: a booking that carries the status \<^verbatim>\<open>Completed\<close> succeeds on
  the empty database and the appointment is stored with that status.
\<close>

theorem booked_status_scheduled_counterexample:
  "fst (public_create_appointment completed_0900 noon noon empty_db) =
     Inr ''000000000000000000000000'' \<and>
   map appt_status (db_appointment (snd (public_create_appointment completed_0900 noon noon empty_db)))
     = [''Completed''] \<and>
   ''Completed'' \<noteq> ''Scheduled''"
proof -
  have v: "a_start_time completed_0900 < a_end_time completed_0900"
    by (simp add: completed_0900_def Appointment_of_def)
  note r = pca_free[OF v empty_db_free, of noon noon]
  have "appt_status (appointment_document (new_ObjectId 0) completed_0900 noon) = ''Completed''"
    by (simp add: appointment_document_def completed_0900_def Appointment_of_def)
  then show ?thesis
    unfolding r using first_ObjectId by (simp add: empty_db_def)
qed

section \<open>Properties of case creation\<close>

lemma require_role_staff:
  "get_role x_role \<in> set staff \<Longrightarrow> require_role staff (get_role x_role) = Inr (get_role x_role)"
  by (simp add: require_role_def)

lemma require_role_forbidden:
  "get_role x_role \<notin> set staff \<Longrightarrow>
   require_role staff (get_role x_role) = Inl (HTTPException 403 ''Forbidden for role'')"
  by (simp add: require_role_def)

lemma create_case_ok:
  assumes "get_role x_role \<in> set staff" and "ensure_client_exists payload db = Inr ()"
  shows "create_case x_role payload t1 t2 db =
     (Inr (str_ObjectId (new_ObjectId (db_next_id db))),
      db\<lparr>db_case := db_case db @ [case_document (new_ObjectId (db_next_id db)) payload t1],
         db_auditlog := db_auditlog db @
           [auditlog_document (new_ObjectId (db_next_id db + 1))
             (AuditLog_of Assistant ''create'' ''case''
               (str_ObjectId (new_ObjectId (db_next_id db))) None) t2],
         db_next_id := db_next_id db + 2\<rparr>)"
  using assms
  by (simp add: create_case_def require_role_staff create_document_case_def
      create_document_auditlog_def Let_def)

lemma create_case_refused:
  assumes "get_role x_role \<in> set staff" and "ensure_client_exists payload db = Inl e"
  shows "create_case x_role payload t1 t2 db = (Inl e, db)"
  using assms by (simp add: create_case_def require_role_staff)

lemma create_case_forbidden:
  assumes "get_role x_role \<notin> set staff"
  shows "create_case x_role payload t1 t2 db = (Inl (HTTPException 403 ''Forbidden for role''), db)"
  using assms by (simp add: create_case_def require_role_forbidden)

lemma create_case_Inr_D:
  assumes "create_case x_role payload t1 t2 db = (Inr new_id, db')"
  shows "get_role x_role \<in> set staff \<and> ensure_client_exists payload db = Inr ()"
proof -
  have r: "get_role x_role \<in> set staff"
  proof (rule ccontr)
    assume "get_role x_role \<notin> set staff"
    from create_case_forbidden[OF this, of payload t1 t2 db] assms show False by simp
  qed
  have "ensure_client_exists payload db = Inr ()"
  proof (cases "ensure_client_exists payload db")
    case (Inl e)
    from create_case_refused[OF r Inl, of t1 t2] assms show ?thesis by simp
  next
    case (Inr u)
    then show ?thesis by simp
  qed
  with r show ?thesis by simp
qed

text \<open>
  C3, as the code has it. A successful \<^verbatim>\<open>create_case\<close> appends one case, stored under
  the identifier it returns, whose status is the one the request carries:
  \<^verbatim>\<open>New\<close> when the request names none, the named status otherwise.
\<close>

theorem created_case_status:
  assumes "create_case x_role (Case_of c t ty status de a du) t1 t2 db = (Inr new_id, db')"
  shows "\<exists>doc. db_case db' = db_case db @ [doc] \<and>
               str_ObjectId (case_id doc) = new_id \<and>
               case_status doc =
                 (case status of None \<Rightarrow> ''New'' | Some x \<Rightarrow> CaseStatus_str x)"
proof -
  let ?p = "Case_of c t ty status de a du"
  from create_case_Inr_D[OF assms] have r: "get_role x_role \<in> set staff"
    and e: "ensure_client_exists ?p db = Inr ()" by blast+
  from create_case_ok[OF r e, of t1 t2] assms
  have "new_id = str_ObjectId (new_ObjectId (db_next_id db))"
    and "db_case db' = db_case db @ [case_document (new_ObjectId (db_next_id db)) ?p t1]"
    by auto
  moreover have "case_status (case_document (new_ObjectId (db_next_id db)) ?p t1) =
      (case status of None \<Rightarrow> ''New'' | Some x \<Rightarrow> CaseStatus_str x)"
    by (simp add: case_document_def Case_of_def split: option.split)
  moreover have "case_id (case_document (new_ObjectId (db_next_id db)) ?p t1) =
      new_ObjectId (db_next_id db)"
    by (simp add: case_document_def)
  ultimately show ?thesis by simp
qed

text \<open>
  C5, as the code has it. A successful \<^verbatim>\<open>create_case\<close> was called by a notary or an
  assistant, and appends one audit entry for the new case whose \<^verbatim>\<open>actor_role\<close> is
  \<^verbatim>\<open>assistant\<close>, whichever of the two called.
\<close>

theorem created_case_audit_actor:
  assumes "create_case x_role payload t1 t2 db = (Inr new_id, db')"
  shows "get_role x_role \<in> {''notary'', ''assistant''} \<and>
         (\<exists>log. db_auditlog db' = db_auditlog db @ [log] \<and>
                actor_role log = ''assistant'' \<and> action log = ''create'' \<and>
                entity log = ''case'' \<and> entity_id log = Some new_id)"
proof -
  from create_case_Inr_D[OF assms] have r: "get_role x_role \<in> set staff"
    and e: "ensure_client_exists payload db = Inr ()" by blast+
  let ?log = "auditlog_document (new_ObjectId (db_next_id db + 1))
             (AuditLog_of Assistant ''create'' ''case''
               (str_ObjectId (new_ObjectId (db_next_id db))) None) t2"
  from create_case_ok[OF r e, of t1 t2] assms
  have "new_id = str_ObjectId (new_ObjectId (db_next_id db))"
    and "db_auditlog db' = db_auditlog db @ [?log]"
    by auto
  moreover have "actor_role ?log = ''assistant'' \<and> action ?log = ''create'' \<and>
                entity ?log = ''case'' \<and>
                entity_id ?log = Some (str_ObjectId (new_ObjectId (db_next_id db)))"
    by (simp add: auditlog_document_def AuditLog_of_def)
  ultimately show ?thesis using r by (simp add: staff_def)
qed

lemma ensure_client_exists_empty:
  "c_client_id payload = [] \<Longrightarrow> ensure_client_exists payload db = Inr ()"
  by (simp add: ensure_client_exists_def)

lemma oid_empty: "oid [] = Inl (HTTPException 400 ''Invalid id or bson not available'')"
  by (simp add: oid_def)

text \<open>
  C10. For a notary or an assistant, \<^verbatim>\<open>create_case\<close> with the empty \<^verbatim>\<open>client_id\<close>, which
  is no identifier at all, succeeds on every database without looking at its
  clients: it appends the case and its audit entry.
\<close>

theorem create_case_empty_client_id:
  assumes "get_role x_role \<in> set staff" and "c_client_id payload = []"
  shows "oid (c_client_id payload) = Inl (HTTPException 400 ''Invalid id or bson not available'') \<and>
     create_case x_role payload t1 t2 db =
     (Inr (str_ObjectId (new_ObjectId (db_next_id db))),
      db\<lparr>db_case := db_case db @ [case_document (new_ObjectId (db_next_id db)) payload t1],
         db_auditlog := db_auditlog db @
           [auditlog_document (new_ObjectId (db_next_id db + 1))
             (AuditLog_of Assistant ''create'' ''case''
               (str_ObjectId (new_ObjectId (db_next_id db))) None) t2],
         db_next_id := db_next_id db + 2\<rparr>)"
  using create_case_ok[OF assms(1) ensure_client_exists_empty[OF assms(2)]] assms(2)
  by (simp add: oid_empty)

lemma find_one_client_None:
  "find_one_client i db = None \<longleftrightarrow> (\<forall>d\<in>set (db_client db). client_id d \<noteq> i)"
  by (auto simp: find_one_client_def find_None_iff)

text \<open>
  C6, as the code has it. For a notary or an assistant and a non-empty
  \<^verbatim>\<open>client_id\<close> that is the identifier of no stored client, \<^verbatim>\<open>create_case\<close> fails and
  leaves the database as it was (no case, no audit entry): with the 400 when the
  text is not a well-formed identifier, with the 404 when it is.
\<close>

theorem create_case_unknown_client:
  assumes "get_role x_role \<in> set staff" and "c_client_id payload \<noteq> []"
    and "\<forall>i. oid (c_client_id payload) = Inr i \<longrightarrow> (\<forall>d\<in>set (db_client db). client_id d \<noteq> i)"
  shows "\<exists>e. create_case x_role payload t1 t2 db = (Inl e, db) \<and>
             (case oid (c_client_id payload) of
                Inl _ \<Rightarrow> InvalidArgumentError e
              | Inr _ \<Rightarrow> NotFoundError e)"
proof (cases "oid (c_client_id payload)")
  case (Inl e)
  then have e: "e = HTTPException 400 ''Invalid id or bson not available''"
    by (simp add: oid_def split: if_splits option.splits)
  from Inl assms(2) have "ensure_client_exists payload db = Inl e"
    by (simp add: ensure_client_exists_def)
  from create_case_refused[OF assms(1) this, of t1 t2] Inl e show ?thesis
    by (simp add: InvalidArgumentError_def)
next
  case (Inr i)
  with assms(3) have "find_one_client i db = None"
    by (simp add: find_one_client_None)
  with Inr assms(2) have "ensure_client_exists payload db = Inl (HTTPException 404 ''Client not found'')"
    by (simp add: ensure_client_exists_def)
  from create_case_refused[OF assms(1) this, of t1 t2] Inr show ?thesis
    by (simp add: NotFoundError_def)
qed

lemma assistant_staff: "get_role (Some ''assistant'') \<in> set staff"
  by (simp add: get_role_def staff_def)

lemma notary_staff: "get_role (Some ''notary'') \<in> set staff"
  by (simp add: get_role_def staff_def)

lemma db_one_client_eq:
  "db_one_client =
     \<lparr>db_client = [client_document (new_ObjectId 0) john noon], db_case = [],
      db_appointment = [],
      db_auditlog = [auditlog_document (new_ObjectId 1)
                       (AuditLog_of Assistant ''create'' ''client''
                          (str_ObjectId (new_ObjectId 0)) None) noon],
      db_next_id = 2\<rparr>"
  by (simp add: db_one_client_def create_client_def require_role_staff[OF assistant_staff]
      create_document_client_def create_document_auditlog_def Let_def empty_db_def)

lemma oid_first: "oid ''000000000000000000000000'' = Inr (new_ObjectId 0)"
  by code_simp

lemma oid_fifth: "oid ''000000000000000000000005'' = Inr (new_ObjectId 5)"
  by code_simp

lemma oid_abc: "oid ''abc'' = Inl (HTTPException 400 ''Invalid id or bson not available'')"
  by (simp add: oid_def)

lemma third_ObjectId: "str_ObjectId (new_ObjectId 2) = ''000000000000000000000002''"
  by code_simp

lemma ObjectId_0_5: "new_ObjectId 0 \<noteq> new_ObjectId 5"
  by code_simp

lemma ensure_john:
  "c_client_id p = ''000000000000000000000000'' \<Longrightarrow> ensure_client_exists p db_one_client = Inr ()"
  by (simp add: ensure_client_exists_def oid_first find_one_client_def db_one_client_eq
      client_document_def)

theorem created_case_status_witness:
  "create_case (Some ''assistant'')
     (Case_of ''000000000000000000000000'' ''Power of Attorney for John Doe''
                ''Power of Attorney'' None None None None) noon noon db_one_client
     = (Inr ''000000000000000000000002'',
        snd (create_case (Some ''assistant'') new_case noon noon db_one_client)) \<and>
   (\<exists>doc. db_case (snd (create_case (Some ''assistant'') new_case noon noon db_one_client)) =
            db_case db_one_client @ [doc] \<and>
          str_ObjectId (case_id doc) = ''000000000000000000000002'' \<and>
          case_status doc = ''New'')"
proof -
  have e: "ensure_client_exists new_case db_one_client = Inr ()"
    by (rule ensure_john) (simp add: new_case_def Case_of_def)
  have n: "db_next_id db_one_client = 2"
    by (simp add: db_one_client_eq)
  have r: "create_case (Some ''assistant'')
     (Case_of ''000000000000000000000000'' ''Power of Attorney for John Doe''
                ''Power of Attorney'' None None None None) noon noon db_one_client
     = (Inr ''000000000000000000000002'',
        snd (create_case (Some ''assistant'') new_case noon noon db_one_client))"
    using create_case_ok[OF assistant_staff e, of noon noon] third_ObjectId
    by (simp add: n new_case_def)
  from created_case_status[OF r] r show ?thesis by simp
qed

text \<open>
  C3 as stated fails: an assistant's request for a case of the existing client
  that carries the status \<^verbatim>\<open>Draft\<close> succeeds, and the case is stored as \<^verbatim>\<open>Draft\<close>.
\<close>

theorem created_case_status_new_counterexample:
  "fst (create_case (Some ''assistant'') draft_case noon noon db_one_client) =
     Inr ''000000000000000000000002'' \<and>
   map case_status (db_case (snd (create_case (Some ''assistant'') draft_case noon noon db_one_client)))
     = [''Draft''] \<and>
   ''Draft'' \<noteq> ''New''"
proof -
  have e: "ensure_client_exists draft_case db_one_client = Inr ()"
    by (rule ensure_john) (simp add: draft_case_def Case_of_def)
  have n: "db_next_id db_one_client = 2" and c: "db_case db_one_client = []"
    by (simp_all add: db_one_client_eq)
  note r = create_case_ok[OF assistant_staff e, of noon noon]
  have "case_status (case_document (new_ObjectId 2) draft_case noon) = ''Draft''"
    by (simp add: case_document_def draft_case_def Case_of_def)
  then show ?thesis
    unfolding r using third_ObjectId by (simp add: n c)
qed

theorem created_case_audit_actor_witness:
  "create_case (Some ''assistant'') new_case noon noon db_one_client
     = (Inr ''000000000000000000000002'',
        snd (create_case (Some ''assistant'') new_case noon noon db_one_client)) \<and>
   get_role (Some ''assistant'') \<in> {''notary'', ''assistant''} \<and>
   (\<exists>log. db_auditlog (snd (create_case (Some ''assistant'') new_case noon noon db_one_client)) =
            db_auditlog db_one_client @ [log] \<and>
          actor_role log = ''assistant'' \<and> action log = ''create'' \<and>
          entity log = ''case'' \<and> entity_id log = Some ''000000000000000000000002'')"
proof -
  have e: "ensure_client_exists new_case db_one_client = Inr ()"
    by (rule ensure_john) (simp add: new_case_def Case_of_def)
  have n: "db_next_id db_one_client = 2"
    by (simp add: db_one_client_eq)
  have r: "create_case (Some ''assistant'') new_case noon noon db_one_client
     = (Inr ''000000000000000000000002'',
        snd (create_case (Some ''assistant'') new_case noon noon db_one_client))"
    using create_case_ok[OF assistant_staff e, of noon noon] third_ObjectId
    by (simp add: n)
  from created_case_audit_actor[OF r] r show ?thesis by simp
qed

text \<open>
  C5 as stated fails: a notary creates a case, and the audit entry the call
  appends names the role \<^verbatim>\<open>assistant\<close>.
\<close>

theorem audit_actor_is_caller_counterexample:
  "get_role (Some ''notary'') = ''notary'' \<and>
   fst (create_case (Some ''notary'') new_case noon noon db_one_client) =
     Inr ''000000000000000000000002'' \<and>
   map actor_role (drop (length (db_auditlog db_one_client))
     (db_auditlog (snd (create_case (Some ''notary'') new_case noon noon db_one_client))))
     = [''assistant''] \<and>
   ''assistant'' \<noteq> ''notary''"
proof -
  have e: "ensure_client_exists new_case db_one_client = Inr ()"
    by (rule ensure_john) (simp add: new_case_def Case_of_def)
  have n: "db_next_id db_one_client = 2"
    by (simp add: db_one_client_eq)
  note r = create_case_ok[OF notary_staff e, of noon noon]
  show ?thesis
    unfolding r using third_ObjectId
    by (simp add: n get_role_def auditlog_document_def AuditLog_of_def)
qed

theorem create_case_unknown_client_witness:
  "get_role (Some ''assistant'') \<in> set staff \<and>
   c_client_id malformed_client_case \<noteq> [] \<and> c_client_id unknown_client_case \<noteq> [] \<and>
   oid (c_client_id malformed_client_case) =
     Inl (HTTPException 400 ''Invalid id or bson not available'') \<and>
   oid (c_client_id unknown_client_case) = Inr (new_ObjectId 5) \<and>
   map client_id (db_client db_one_client) = [new_ObjectId 0] \<and>
   new_ObjectId 0 \<noteq> new_ObjectId 5 \<and>
   (\<exists>e. create_case (Some ''assistant'') malformed_client_case noon noon db_one_client
          = (Inl e, db_one_client) \<and> InvalidArgumentError e) \<and>
   (\<exists>e. create_case (Some ''assistant'') unknown_client_case noon noon db_one_client
          = (Inl e, db_one_client) \<and> NotFoundError e)"
proof -
  have m: "c_client_id malformed_client_case = ''abc''"
    by (simp add: malformed_client_case_def Case_of_def)
  have u: "c_client_id unknown_client_case = ''000000000000000000000005''"
    by (simp add: unknown_client_case_def Case_of_def)
  have c: "map client_id (db_client db_one_client) = [new_ObjectId 0]"
    by (simp add: db_one_client_eq client_document_def)
  have hm: "\<forall>i. oid (c_client_id malformed_client_case) = Inr i \<longrightarrow>
              (\<forall>d\<in>set (db_client db_one_client). client_id d \<noteq> i)"
    by (simp add: m oid_abc)
  have hu: "\<forall>i. oid (c_client_id unknown_client_case) = Inr i \<longrightarrow>
              (\<forall>d\<in>set (db_client db_one_client). client_id d \<noteq> i)"
    using ObjectId_0_5 by (simp add: u oid_fifth db_one_client_eq client_document_def)
  from create_case_unknown_client[OF assistant_staff _ hm, of noon noon]
  have 1: "\<exists>e. create_case (Some ''assistant'') malformed_client_case noon noon db_one_client
          = (Inl e, db_one_client) \<and> InvalidArgumentError e"
    by (simp add: m oid_abc)
  from create_case_unknown_client[OF assistant_staff _ hu, of noon noon]
  have 2: "\<exists>e. create_case (Some ''assistant'') unknown_client_case noon noon db_one_client
          = (Inl e, db_one_client) \<and> NotFoundError e"
    by (simp add: u oid_fifth)
  from 1 2 c assistant_staff ObjectId_0_5 show ?thesis
    by (simp add: m u oid_abc oid_fifth)
qed

text \<open>
  C6 as stated fails: the \<^verbatim>\<open>client_id\<close> \<^verbatim>\<open>abc\<close> names no client, and the call fails with
  the 400 of \<^verbatim>\<open>oid\<close>, which is not the \<^verbatim>\<open>NotFoundError\<close>.
\<close>

theorem unknown_client_not_found_counterexample:
  "c_client_id malformed_client_case = ''abc'' \<and>
   map (str_ObjectId \<circ> client_id) (db_client db_one_client) = [''000000000000000000000000''] \<and>
   create_case (Some ''assistant'') malformed_client_case noon noon db_one_client =
     (Inl (HTTPException 400 ''Invalid id or bson not available''), db_one_client) \<and>
   \<not> NotFoundError (HTTPException 400 ''Invalid id or bson not available'')"
proof -
  have m: "c_client_id malformed_client_case = ''abc''"
    by (simp add: malformed_client_case_def Case_of_def)
  have "ensure_client_exists malformed_client_case db_one_client =
          Inl (HTTPException 400 ''Invalid id or bson not available'')"
    by (simp add: ensure_client_exists_def m oid_abc)
  from create_case_refused[OF assistant_staff this, of noon noon] m first_ObjectId
  show ?thesis
    by (simp add: NotFoundError_def db_one_client_eq client_document_def)
qed

theorem create_case_empty_client_id_witness:
  "get_role (Some ''notary'') \<in> set staff \<and> c_client_id walk_in_case = [] \<and>
   db_client empty_db = [] \<and>
   create_case (Some ''notary'') walk_in_case noon noon empty_db =
     (Inr ''000000000000000000000000'',
      \<lparr>db_client = [], db_case = [case_document (new_ObjectId 0) walk_in_case noon],
       db_appointment = [],
       db_auditlog = [auditlog_document (new_ObjectId 1)
                        (AuditLog_of Assistant ''create'' ''case''
                           ''000000000000000000000000'' None) noon],
       db_next_id = 2\<rparr>)"
proof -
  have w: "c_client_id walk_in_case = []"
    by (simp add: walk_in_case_def Case_of_def)
  from create_case_empty_client_id[OF notary_staff w, of noon noon empty_db] w notary_staff
  show ?thesis
    by (simp add: first_ObjectId empty_db_def)
qed

section \<open>Properties of the status update\<close>

lemma update_one_status_no_match:
  "\<forall>d\<in>set cs. case_id d \<noteq> i \<Longrightarrow> update_one_status i s now cs = (0, cs)"
  by (induction cs) simp_all

lemma update_case_status_forbidden:
  assumes "get_role x_role \<notin> set staff"
  shows "update_case_status x_role cid status t1 t2 db =
           (Inl (HTTPException 403 ''Forbidden for role''), db)"
  using assms by (simp add: update_case_status_def require_role_forbidden)

lemma update_case_status_invalid:
  assumes "get_role x_role \<in> set staff" and "status \<notin> set allowed"
  shows "update_case_status x_role cid status t1 t2 db =
           (Inl (HTTPException 400 ''Invalid status''), db)"
  using assms by (simp add: update_case_status_def require_role_staff)

lemma oid_Inl:
  "oid s = Inl e \<Longrightarrow> e = HTTPException 400 ''Invalid id or bson not available''"
  by (simp add: oid_def split: if_splits option.splits)

lemma update_case_status_bad_id:
  assumes "get_role x_role \<in> set staff" and "status \<in> set allowed" and "oid cid = Inl e"
  shows "update_case_status x_role cid status t1 t2 db =
           (Inl (HTTPException 400 ''Invalid id or bson not available''), db)"
  using assms oid_Inl[OF assms(3)] by (simp add: update_case_status_def require_role_staff)

lemma update_case_status_not_found:
  assumes "get_role x_role \<in> set staff" and "status \<in> set allowed" and "oid cid = Inr i"
    and "\<forall>d\<in>set (db_case db). case_id d \<noteq> i"
  shows "update_case_status x_role cid status t1 t2 db =
           (Inl (HTTPException 404 ''Case not found''), db)"
  using assms(1-3) update_one_status_no_match[OF assms(4)]
  by (simp add: update_case_status_def require_role_staff)

text \<open>
  C7, as the code has it. For a notary or an assistant, \<^verbatim>\<open>update_case_status\<close> fails with
  the 400 whenever the status is outside \<^verbatim>\<open>allowed\<close>; for a status in \<^verbatim>\<open>allowed\<close> it
  fails with the 400 when the case id is not a well-formed identifier, and with
  the 404 when it is one and no stored case has it. Each of these failures leaves
  the database as it was: every case keeps its status and no audit entry is added.
\<close>

theorem update_case_status_failures:
  assumes "get_role x_role \<in> set staff"
  shows "(status \<notin> set allowed \<longrightarrow>
            (\<exists>e. update_case_status x_role cid status t1 t2 db = (Inl e, db) \<and>
                 InvalidArgumentError e)) \<and>
         (status \<in> set allowed \<longrightarrow>
            (case oid cid of
               Inl _ \<Rightarrow> (\<exists>e. update_case_status x_role cid status t1 t2 db = (Inl e, db) \<and>
                              InvalidArgumentError e)
             | Inr i \<Rightarrow> (\<forall>d\<in>set (db_case db). case_id d \<noteq> i) \<longrightarrow>
                         (\<exists>e. update_case_status x_role cid status t1 t2 db = (Inl e, db) \<and>
                              NotFoundError e)))"
proof (intro conjI impI)
  assume "status \<notin> set allowed"
  from update_case_status_invalid[OF assms this, of cid t1 t2 db]
  show "\<exists>e. update_case_status x_role cid status t1 t2 db = (Inl e, db) \<and> InvalidArgumentError e"
    by (simp add: InvalidArgumentError_def)
next
  assume a: "status \<in> set allowed"
  show "case oid cid of
               Inl _ \<Rightarrow> (\<exists>e. update_case_status x_role cid status t1 t2 db = (Inl e, db) \<and>
                              InvalidArgumentError e)
             | Inr i \<Rightarrow> (\<forall>d\<in>set (db_case db). case_id d \<noteq> i) \<longrightarrow>
                         (\<exists>e. update_case_status x_role cid status t1 t2 db = (Inl e, db) \<and>
                              NotFoundError e)"
  proof (cases "oid cid")
    case (Inl e)
    from update_case_status_bad_id[OF assms a Inl, of t1 t2 db] Inl show ?thesis
      by (simp add: InvalidArgumentError_def)
  next
    case (Inr i)
    show ?thesis
      using update_case_status_not_found[OF assms a Inr, of db t1 t2] Inr
      by (simp add: NotFoundError_def)
  qed
qed

lemma db_one_case_cases:
  "db_case db_one_case = [case_document (new_ObjectId 2) new_case noon]"
proof -
  have e: "ensure_client_exists new_case db_one_client = Inr ()"
    by (rule ensure_john) (simp add: new_case_def Case_of_def)
  show ?thesis
    unfolding db_one_case_def create_case_ok[OF assistant_staff e]
    by (simp add: db_one_client_eq)
qed

lemma Draft_allowed: "''Draft'' \<in> set allowed"
  by (simp add: allowed_def)

lemma Bogus_not_allowed: "''Bogus'' \<notin> set allowed"
  by (simp add: allowed_def)

lemma ObjectId_2_5: "new_ObjectId 2 \<noteq> new_ObjectId 5"
  by code_simp

theorem update_case_status_failures_witness:
  "get_role (Some ''assistant'') \<in> set staff \<and>
   ''Bogus'' \<notin> set allowed \<and> ''Draft'' \<in> set allowed \<and>
   map case_id (db_case db_one_case) = [new_ObjectId 2] \<and>
   oid ''000000000000000000000005'' = Inr (new_ObjectId 5) \<and>
   new_ObjectId 2 \<noteq> new_ObjectId 5 \<and>
   oid ''abc'' = Inl (HTTPException 400 ''Invalid id or bson not available'') \<and>
   (\<exists>e. update_case_status (Some ''assistant'') ''000000000000000000000002'' ''Bogus'' noon noon
          db_one_case = (Inl e, db_one_case) \<and> InvalidArgumentError e) \<and>
   (\<exists>e. update_case_status (Some ''assistant'') ''abc'' ''Draft'' noon noon
          db_one_case = (Inl e, db_one_case) \<and> InvalidArgumentError e) \<and>
   (\<exists>e. update_case_status (Some ''assistant'') ''000000000000000000000005'' ''Draft'' noon noon
          db_one_case = (Inl e, db_one_case) \<and> NotFoundError e)"
proof -
  have c: "map case_id (db_case db_one_case) = [new_ObjectId 2]"
    by (simp add: db_one_case_cases case_document_def)
  then have nf: "\<forall>d\<in>set (db_case db_one_case). case_id d \<noteq> new_ObjectId 5"
    using ObjectId_2_5 by (simp add: db_one_case_cases)
  from update_case_status_failures[OF assistant_staff,
         of "''Bogus''" "''000000000000000000000002''" noon noon db_one_case]
  have 1: "\<exists>e. update_case_status (Some ''assistant'') ''000000000000000000000002'' ''Bogus''
          noon noon db_one_case = (Inl e, db_one_case) \<and> InvalidArgumentError e"
    using Bogus_not_allowed by blast
  from update_case_status_failures[OF assistant_staff,
         of "''Draft''" "''abc''" noon noon db_one_case]
  have 2: "\<exists>e. update_case_status (Some ''assistant'') ''abc'' ''Draft'' noon noon
          db_one_case = (Inl e, db_one_case) \<and> InvalidArgumentError e"
    using Draft_allowed by (simp add: oid_abc)
  from update_case_status_failures[OF assistant_staff,
         of "''Draft''" "''000000000000000000000005''" noon noon db_one_case]
  have 3: "\<exists>e. update_case_status (Some ''assistant'') ''000000000000000000000005'' ''Draft''
          noon noon db_one_case = (Inl e, db_one_case) \<and> NotFoundError e"
    using Draft_allowed nf by (simp add: oid_fifth)
  from 1 2 3 c assistant_staff Bogus_not_allowed Draft_allowed ObjectId_2_5 show ?thesis
    by (simp add: oid_fifth oid_abc)
qed

text \<open>
  C7 as stated fails: no case has the id \<^verbatim>\<open>abc\<close>, the status \<^verbatim>\<open>Draft\<close> is allowed, and the
  call fails with the 400 of \<^verbatim>\<open>oid\<close>, which is not the \<^verbatim>\<open>NotFoundError\<close>.
\<close>

theorem missing_case_not_found_counterexample:
  "''Draft'' \<in> set allowed \<and>
   map (str_ObjectId \<circ> case_id) (db_case db_one_case) = [''000000000000000000000002''] \<and>
   update_case_status (Some ''assistant'') ''abc'' ''Draft'' noon noon db_one_case =
     (Inl (HTTPException 400 ''Invalid id or bson not available''), db_one_case) \<and>
   \<not> NotFoundError (HTTPException 400 ''Invalid id or bson not available'')"
  using update_case_status_bad_id[OF assistant_staff Draft_allowed oid_abc, of noon noon db_one_case]
    Draft_allowed third_ObjectId
  by (simp add: NotFoundError_def db_one_case_cases case_document_def)

section \<open>Properties of the appointment listing\<close>

lemma strptime_ymd_valid:
  "strptime_ymd s = Some (y, m, d) \<Longrightarrow> valid_date y m d"
  by (auto simp: strptime_ymd_def split: option.splits prod.splits if_splits)

lemma add_one_day_None_iff:
  assumes "valid_date y m d"
  shows "add_one_day (datetime_ymd (y, m, d)) = None \<longleftrightarrow> (y, m, d) = (9999, 12, 31)"
  using assms
  by (auto simp: add_one_day_def datetime_ymd_def valid_date_def days_in_month_def is_leap_def
      split: if_splits)

lemma list_appointments_filtered:
  assumes "get_role x_role \<in> set staff" and "day_filter day = Inr filt"
  shows "list_appointments day x_role db =
           Inr (sort_key start_time (filter filt (db_appointment db)))"
  using assms by (simp add: list_appointments_def require_role_staff)

lemma list_appointments_refused:
  assumes "get_role x_role \<in> set staff" and "day_filter day = Inl e"
  shows "list_appointments day x_role db = Inl e"
  using assms by (simp add: list_appointments_def require_role_staff)

lemma day_filter_absent: "day_filter None = Inr (\<lambda>d. True)" "day_filter (Some []) = Inr (\<lambda>d. True)"
  by (simp_all add: day_filter_def)

lemma day_filter_malformed:
  "s \<noteq> [] \<Longrightarrow> strptime_ymd s = None \<Longrightarrow>
   day_filter (Some s) = Inl (HTTPException 400 ''Invalid day format'')"
  by (simp add: day_filter_def)

lemma day_filter_last_day:
  "s \<noteq> [] \<Longrightarrow> strptime_ymd s = Some (9999, 12, 31) \<Longrightarrow>
   day_filter (Some s) = Inl (HTTPException 400 ''Invalid day format'')"
  by (simp add: day_filter_def add_one_day_def datetime_ymd_def days_in_month_def)

lemma day_filter_day:
  assumes "s \<noteq> []" and "strptime_ymd s = Some ymd" and "ymd \<noteq> (9999, 12, 31)"
  shows "\<exists>nxt. add_one_day (datetime_ymd ymd) = Some nxt \<and>
           day_filter (Some s) = Inr (day_range (datetime_ymd ymd) nxt)"
proof -
  obtain y m d where ymd: "ymd = (y, m, d)" by (cases ymd) auto
  from assms(2) have "valid_date y m d" unfolding ymd by (rule strptime_ymd_valid)
  from add_one_day_None_iff[OF this] assms(3) ymd
  obtain nxt where "add_one_day (datetime_ymd ymd) = Some nxt" by auto
  with assms(1,2) show ?thesis by (simp add: day_filter_def)
qed

text \<open>
  C8, as the code has it. For a notary or an assistant: with no \<^verbatim>\<open>day\<close>, or the empty
  string, the listing is every appointment in ascending order of start time. For a
  non-empty \<^verbatim>\<open>day\<close> that \<^verbatim>\<open>strptime\<close> reads as a date other than 9999-12-31, it is
  exactly the appointments (with multiplicity) whose start time lies from that
  day's midnight up to, and not including, the next day's, in ascending order of
  start time. Every other non-empty \<^verbatim>\<open>day\<close>, that is one \<^verbatim>\<open>strptime\<close> rejects and
  9999-12-31, whose next day \<^verbatim>\<open>datetime\<close> cannot hold, fails with the 400.
\<close>

theorem list_appointments_by_day:
  assumes "get_role x_role \<in> set staff"
  shows "(\<forall>day\<in>{None, Some []}. \<exists>r. list_appointments day x_role db = Inr r \<and>
             sorted (map start_time r) \<and> mset r = mset (db_appointment db)) \<and>
         (s \<noteq> [] \<longrightarrow>
           (case strptime_ymd s of
              None \<Rightarrow> \<exists>e. list_appointments (Some s) x_role db = Inl e \<and> InvalidArgumentError e
            | Some ymd \<Rightarrow>
                if ymd = (9999, 12, 31)
                then \<exists>e. list_appointments (Some s) x_role db = Inl e \<and> InvalidArgumentError e
                else \<exists>r nxt. add_one_day (datetime_ymd ymd) = Some nxt \<and>
                       list_appointments (Some s) x_role db = Inr r \<and>
                       sorted (map start_time r) \<and>
                       mset r = filter_mset
                                  (\<lambda>a. datetime_ymd ymd \<le> start_time a \<and> start_time a < nxt)
                                  (mset (db_appointment db))))"
proof (intro conjI ballI impI)
  fix day :: "string option" assume "day \<in> {None, Some []}"
  then have "day_filter day = Inr (\<lambda>d. True)" by (auto simp: day_filter_absent)
  from list_appointments_filtered[OF assms this, of db]
  show "\<exists>r. list_appointments day x_role db = Inr r \<and>
             sorted (map start_time r) \<and> mset r = mset (db_appointment db)"
    by simp
next
  assume s: "s \<noteq> []"
  have bad: "\<exists>e. list_appointments (Some s) x_role db = Inl e \<and> InvalidArgumentError e"
    if "day_filter (Some s) = Inl (HTTPException 400 ''Invalid day format'')"
    using list_appointments_refused[OF assms that, of db] by (simp add: InvalidArgumentError_def)
  show "case strptime_ymd s of
              None \<Rightarrow> \<exists>e. list_appointments (Some s) x_role db = Inl e \<and> InvalidArgumentError e
            | Some ymd \<Rightarrow>
                if ymd = (9999, 12, 31)
                then \<exists>e. list_appointments (Some s) x_role db = Inl e \<and> InvalidArgumentError e
                else \<exists>r nxt. add_one_day (datetime_ymd ymd) = Some nxt \<and>
                       list_appointments (Some s) x_role db = Inr r \<and>
                       sorted (map start_time r) \<and>
                       mset r = filter_mset
                                  (\<lambda>a. datetime_ymd ymd \<le> start_time a \<and> start_time a < nxt)
                                  (mset (db_appointment db))"
  proof (cases "strptime_ymd s")
    case None
    from bad[OF day_filter_malformed[OF s None]] None show ?thesis by simp
  next
    case (Some ymd)
    show ?thesis
    proof (cases "ymd = (9999, 12, 31)")
      case True
      with Some have "strptime_ymd s = Some (9999, 12, 31)" by simp
      from bad[OF day_filter_last_day[OF s this]] Some True show ?thesis by simp
    next
      case False
      from day_filter_day[OF s Some False] obtain nxt where
        n: "add_one_day (datetime_ymd ymd) = Some nxt" and
        f: "day_filter (Some s) = Inr (day_range (datetime_ymd ymd) nxt)" by blast
      have "day_range (datetime_ymd ymd) nxt =
              (\<lambda>a. datetime_ymd ymd \<le> start_time a \<and> start_time a < nxt)"
        by (simp add: day_range_def fun_eq_iff)
      with list_appointments_filtered[OF assms f, of db] n Some False show ?thesis
        by simp
    qed
  qed
qed

text \<open>
  The range of the filter is the calendar day: a time whose date exists lies in it
  exactly when that date is the day asked for.
\<close>

lemma day_range_is_calendar_day:
  assumes "valid_date y m d" and "add_one_day (datetime_ymd (y, m, d)) = Some nxt"
    and "valid_date y' m' d'"
  shows "datetime_ymd (y, m, d) \<le> (y', m', d', h, mi, sec, us) \<and>
         (y', m', d', h, mi, sec, us) < nxt
           \<longleftrightarrow> (y', m', d') = (y, m, d)"
  using assms
  by (cases "m' = m"; cases "y' = y";
      auto simp: add_one_day_def datetime_ymd_def valid_date_def split: if_splits)

lemma slot_next_day_valid: "a_start_time slot_next_day < a_end_time slot_next_day"
  by (simp add: slot_next_day_def Appointment_of_def)

lemma db_two_days_appointments:
  "db_appointment db_two_days =
     [appointment_document (new_ObjectId 0) slot_1000 noon,
      appointment_document (new_ObjectId 2) slot_next_day noon,
      appointment_document (new_ObjectId 4) slot_0900 noon]"
proof -
  define db1 where "db1 = snd (public_create_appointment slot_1000 noon noon empty_db)"
  define db2 where "db2 = snd (public_create_appointment slot_next_day noon noon db1)"
  have 1: "db_appointment db1 = [appointment_document (new_ObjectId 0) slot_1000 noon]"
    "db_next_id db1 = 2"
    unfolding db1_def pca_free[OF slot_1000_valid empty_db_free]
    by (simp_all add: empty_db_def)
  have "\<forall>d\<in>set (db_appointment db1). \<not> conflict_filter slot_next_day d"
    by (simp add: 1 conflict_stored slot_next_day_def slot_1000_def Appointment_of_def)
  note r2 = pca_free[OF slot_next_day_valid this, of noon noon]
  have 2: "db_appointment db2 = [appointment_document (new_ObjectId 0) slot_1000 noon,
      appointment_document (new_ObjectId 2) slot_next_day noon]" "db_next_id db2 = 4"
    unfolding db2_def r2 by (simp_all add: 1)
  have "\<forall>d\<in>set (db_appointment db2). \<not> conflict_filter slot_0900 d"
    by (simp add: 2 conflict_stored slot_next_day_def slot_1000_def slot_0900_def Appointment_of_def)
  note r3 = pca_free[OF slot_0900_valid this, of noon noon]
  have "db_appointment db_two_days =
          db_appointment (snd (public_create_appointment slot_0900 noon noon db2))"
    by (simp add: db_two_days_def db2_def db1_def)
  also have "\<dots> = [appointment_document (new_ObjectId 0) slot_1000 noon,
      appointment_document (new_ObjectId 2) slot_next_day noon,
      appointment_document (new_ObjectId 4) slot_0900 noon]"
    by (simp add: r3 2)
  finally show ?thesis .
qed

lemma strptime_15_jan: "strptime_ymd ''2024-01-15'' = Some (2024, 1, 15)"
  by code_simp

lemma strptime_month_13: "strptime_ymd ''2024-13-01'' = None"
  by code_simp

lemma strptime_last_day: "strptime_ymd ''9999-12-31'' = Some (9999, 12, 31)"
  by code_simp

lemma start_times:
  "start_time (appointment_document i slot_0900 t) = (2024, 1, 15, 9, 0, 0, 0)"
  "start_time (appointment_document i slot_1000 t) = (2024, 1, 15, 10, 0, 0, 0)"
  "start_time (appointment_document i slot_next_day t) = (2024, 1, 16, 9, 0, 0, 0)"
  by (simp_all add: appointment_document_def slot_0900_def slot_1000_def slot_next_day_def
      Appointment_of_def)

lemma list_15_jan:
  "list_appointments (Some ''2024-01-15'') (Some ''notary'') db_two_days =
     Inr [appointment_document (new_ObjectId 4) slot_0900 noon,
          appointment_document (new_ObjectId 0) slot_1000 noon]"
proof -
  have "day_filter (Some ''2024-01-15'') =
          Inr (day_range (2024, 1, 15, 0, 0, 0, 0) (2024, 1, 16, 0, 0, 0, 0))"
    by (simp add: day_filter_def strptime_15_jan datetime_ymd_def add_one_day_def
        days_in_month_def)
  from list_appointments_filtered[OF notary_staff this, of db_two_days] show ?thesis
    by (simp add: db_two_days_appointments day_range_def start_times)
qed

lemma list_all_days:
  "list_appointments (Some []) (Some ''notary'') db_two_days =
     Inr [appointment_document (new_ObjectId 4) slot_0900 noon,
          appointment_document (new_ObjectId 0) slot_1000 noon,
          appointment_document (new_ObjectId 2) slot_next_day noon]"
  using list_appointments_filtered[OF notary_staff day_filter_absent(2), of db_two_days]
  by (simp add: db_two_days_appointments start_times)

theorem list_appointments_by_day_witness:
  "get_role (Some ''notary'') \<in> set staff \<and>
   strptime_ymd ''2024-01-15'' = Some (2024, 1, 15) \<and>
   strptime_ymd ''2024-13-01'' = None \<and>
   list_appointments (Some ''2024-01-15'') (Some ''notary'') db_two_days =
     Inr [appointment_document (new_ObjectId 4) slot_0900 noon,
          appointment_document (new_ObjectId 0) slot_1000 noon] \<and>
   (\<exists>r nxt. add_one_day (datetime_ymd (2024, 1, 15)) = Some nxt \<and>
       list_appointments (Some ''2024-01-15'') (Some ''notary'') db_two_days = Inr r \<and>
       sorted (map start_time r) \<and>
       mset r = filter_mset
                  (\<lambda>a. datetime_ymd (2024, 1, 15) \<le> start_time a \<and> start_time a < nxt)
                  (mset (db_appointment db_two_days))) \<and>
   (\<exists>e. list_appointments (Some ''2024-13-01'') (Some ''notary'') db_two_days = Inl e \<and>
        InvalidArgumentError e) \<and>
   (\<exists>r. list_appointments None (Some ''notary'') db_two_days = Inr r \<and>
        sorted (map start_time r) \<and> mset r = mset (db_appointment db_two_days))"
proof -
  note t1 = list_appointments_by_day[OF notary_staff, of db_two_days "''2024-01-15''"]
  note t2 = list_appointments_by_day[OF notary_staff, of db_two_days "''2024-13-01''"]
  from t1 have a: "\<exists>r nxt. add_one_day (datetime_ymd (2024, 1, 15)) = Some nxt \<and>
       list_appointments (Some ''2024-01-15'') (Some ''notary'') db_two_days = Inr r \<and>
       sorted (map start_time r) \<and>
       mset r = filter_mset
                  (\<lambda>a. datetime_ymd (2024, 1, 15) \<le> start_time a \<and> start_time a < nxt)
                  (mset (db_appointment db_two_days))"
    by (simp add: strptime_15_jan)
  from t2 have b: "\<exists>e. list_appointments (Some ''2024-13-01'') (Some ''notary'') db_two_days = Inl e \<and>
        InvalidArgumentError e"
    by (simp add: strptime_month_13)
  from t1 have c: "\<exists>r. list_appointments None (Some ''notary'') db_two_days = Inr r \<and>
        sorted (map start_time r) \<and> mset r = mset (db_appointment db_two_days)"
    by blast
  from a b c notary_staff strptime_15_jan strptime_month_13 list_15_jan show ?thesis
    by blast
qed

text \<open>
  C8 as stated fails at two inputs. The empty string is no date, yet the listing
  does not fail: it returns all three appointments, the one of 16 January among
  them. And 9999-12-31 is a date, yet the listing fails with the 400 instead of
  returning that day's appointments.
\<close>

theorem list_appointments_day_counterexample:
  "strptime_ymd [] = None \<and>
   list_appointments (Some []) (Some ''notary'') db_two_days =
     Inr [appointment_document (new_ObjectId 4) slot_0900 noon,
          appointment_document (new_ObjectId 0) slot_1000 noon,
          appointment_document (new_ObjectId 2) slot_next_day noon] \<and>
   strptime_ymd ''9999-12-31'' = Some (9999, 12, 31) \<and>
   list_appointments (Some ''9999-12-31'') (Some ''notary'') db_two_days =
     Inl (HTTPException 400 ''Invalid day format'')"
proof -
  have "strptime_ymd [] = None"
    by (simp add: strptime_ymd_def)
  moreover have "list_appointments (Some ''9999-12-31'') (Some ''notary'') db_two_days =
     Inl (HTTPException 400 ''Invalid day format'')"
    by (rule list_appointments_refused[OF notary_staff day_filter_last_day[OF _ strptime_last_day]])
       simp
  ultimately show ?thesis
    using list_all_days strptime_last_day by simp
qed

section \<open>Properties of the dashboard\<close>

lemma below_ten:
  fixes k :: nat
  assumes "k < 10"
  shows "k \<in> {0, 1, 2, 3, 4, 5, 6, 7, 8, 9}"
  using assms by simp arith

lemma digit_char_table:
  "digit_char n = ''0123456789'' ! (n mod 10)"
proof -
  have "n mod 10 \<in> {0, 1, 2, 3, 4, 5, 6, 7, 8, 9}"
    by (rule below_ten) simp
  then show ?thesis
    unfolding digit_char_def by (elim insertE emptyE) (simp_all add: char_of_def bit_Suc_0_iff)
qed

lemma is_digit_digit_char: "is_digit (digit_char n)"
proof -
  have "n mod 10 < 10" by simp
  then show ?thesis
    unfolding digit_char_table is_digit_def by (simp del: set_simps)
qed

lemma digit_val_digit_char: "digit_val (digit_char n) = n mod 10"
proof -
  have "(48 + n mod 10) mod 256 = 48 + n mod 10"
    by (rule mod_less) (simp add: less_Suc_eq_le[symmetric])
  then show ?thesis by (simp add: digit_val_def digit_char_def)
qed

lemma four_digits:
  fixes y :: nat
  assumes "y \<le> 9999"
  shows "1000 * (y div 1000 mod 10) + 100 * (y div 100 mod 10) + 10 * (y div 10 mod 10) + y mod 10 = y"
proof -
  define q1 q2 q3 where "q1 = y div 10" and "q2 = y div 100" and "q3 = y div 1000"
  have d2: "q1 div 10 = q2" and d3: "q2 div 10 = q3"
    by (simp_all add: q1_def q2_def q3_def div_mult2_eq[symmetric])
  have 1: "y = 10 * q1 + y mod 10"
    by (simp add: q1_def)
  have 2: "q1 = 10 * q2 + q1 mod 10"
    using div_mult_mod_eq[of q1 10] by (simp add: d2)
  have 3: "q2 = 10 * q3 + q2 mod 10"
    using div_mult_mod_eq[of q2 10] by (simp add: d3)
  from assms have "q3 < 10"
    by (simp add: q3_def div_less_iff_less_mult)
  then have 4: "q3 mod 10 = q3" by simp
  have "1000 * (q3 mod 10) + 100 * (q2 mod 10) + 10 * (q1 mod 10) + y mod 10 = y"
    using 1 2 3 4 by linarith
  then show ?thesis by (simp only: q1_def q2_def q3_def)
qed

lemma directive_Y_strftime:
  assumes "y \<le> 9999"
  shows "directive_Y (digit_char (y div 1000) # digit_char (y div 100) # digit_char (y div 10) #
                      digit_char y # rest) = Some (y, rest)"
  by (simp only: directive_Y.simps is_digit_digit_char digit_val_digit_char
      four_digits[OF assms] simp_thms if_True)

lemma directive_m_strftime:
  assumes "1 \<le> m" and "m \<le> 12"
  shows "directive_m (digit_char (m div 10) # digit_char m # rest) = Some (m, rest)"
proof -
  from assms have "m \<in> {1, 2, 3, 4, 5, 6, 7, 8, 9, 10, 11, 12}" by simp arith
  then show ?thesis
    by (elim insertE emptyE)
       (simp_all add: digit_char_table nonzero_digit_def digit_val_def)
qed

lemma directive_d_strftime:
  assumes "1 \<le> d" and "d \<le> 31"
  shows "directive_d [digit_char (d div 10), digit_char d] = Some (d, [])"
proof -
  from assms have "d \<in> {1, 2, 3, 4, 5, 6, 7, 8, 9, 10} \<or>
                   d \<in> {11, 12, 13, 14, 15, 16, 17, 18, 19, 20} \<or>
                   d \<in> {21, 22, 23, 24, 25, 26, 27, 28, 29, 30, 31}" by simp arith
  then show ?thesis
    by (elim disjE insertE emptyE)
       (simp_all add: digit_char_table nonzero_digit_def is_digit_def digit_val_def)
qed

lemma days_in_month_le: "days_in_month y m \<le> 31"
  by (simp add: days_in_month_def)

text \<open>
  Reading back the text \<^verbatim>\<open>strftime\<close> writes for an existing date gives that date, so
  the dashboard's detour through a string never fails.
\<close>

lemma strptime_strftime:
  assumes "valid_date y m d"
  shows "strptime_ymd (strftime_ymd (y, m, d, rest)) = Some (y, m, d)"
proof -
  from assms have y: "y \<le> 9999" and m: "1 \<le> m" "m \<le> 12" and d: "1 \<le> d" "d \<le> 31"
    using days_in_month_le[of y m] by (simp_all add: valid_date_def)
  show ?thesis
    using assms
    by (simp add: strptime_ymd_def strftime_ymd_def directive_Y_strftime[OF y]
        directive_m_strftime[OF m] directive_d_strftime[OF d]
        del: directive_Y.simps directive_m.simps directive_d.simps)
qed

lemma count_open_completed:
  "count_documents (\<lambda>c. case_status c \<in> set [''New'', ''Draft'', ''Waiting Signature'']) cs +
   count_documents (\<lambda>c. case_status c = ''Completed'') cs \<le> length cs"
  by (induction cs) (auto simp: count_documents_def)

lemma recent_sorted:
  "sorted_wrt (\<lambda>a b. created_at a \<ge> created_at b) (take n (rev (sort_key created_at xs)))"
proof -
  have "sorted (map created_at (sort_key created_at xs))" by simp
  then have "sorted_wrt (\<lambda>a b. created_at a \<le> created_at b) (sort_key created_at xs)"
    by (simp add: sorted_wrt_map)
  then have "sorted_wrt (\<lambda>a b. created_at a \<ge> created_at b) (rev (sort_key created_at xs))"
    by (simp add: sorted_wrt_rev)
  then show ?thesis by (rule sorted_wrt_take)
qed

lemma recent_older:
  "\<exists>older. mset xs = mset (take n (rev (sort_key created_at xs))) + mset older \<and>
     (\<forall>a\<in>set (take n (rev (sort_key created_at xs))). \<forall>b\<in>set older.
        created_at b \<le> created_at a)"
proof -
  let ?l = "rev (sort_key created_at xs)"
  have "sorted (map created_at (sort_key created_at xs))" by simp
  then have "sorted_wrt (\<lambda>a b. created_at a \<le> created_at b) (sort_key created_at xs)"
    by (simp add: sorted_wrt_map)
  then have "sorted_wrt (\<lambda>a b. created_at a \<ge> created_at b) (take n ?l @ drop n ?l)"
    by (simp add: sorted_wrt_rev)
  then have "\<forall>a\<in>set (take n ?l). \<forall>b\<in>set (drop n ?l). created_at b \<le> created_at a"
    unfolding sorted_wrt_append by blast
  moreover have "mset xs = mset (take n ?l) + mset (drop n ?l)"
    by (metis append_take_drop_id mset_append mset_rev mset_sort)
  ultimately show ?thesis by blast
qed

lemma dashboard_ok:
  assumes "get_role x_role \<in> set staff" and "valid_date y m d" and "(y, m, d) \<noteq> (9999, 12, 31)"
  shows "\<exists>today. dashboard x_role (y, m, d, rest) db =
     Inr \<lparr>kpis = \<lparr>appointments_today = today,
                   open_cases = count_documents
                     (\<lambda>c. case_status c \<in> set [''New'', ''Draft'', ''Waiting Signature''])
                     (db_case db),
                   completed_cases = count_documents
                     (\<lambda>c. case_status c = ''Completed'') (db_case db)\<rparr>,
           recent_activity = take 10 (rev (sort_key created_at (db_auditlog db)))\<rparr>"
proof -
  from add_one_day_None_iff[OF assms(2)] assms(3)
  obtain nxt where "add_one_day (datetime_ymd (y, m, d)) = Some nxt" by auto
  then show ?thesis
    using assms(1)
    by (simp add: dashboard_def require_role_staff strptime_strftime[OF assms(2)] Let_def)
qed

text \<open>
  C9. For a notary or an assistant, at any clock reading in the years 1000 to 9999
  whose date exists and is not 9999-12-31, and for every database, \<^verbatim>\<open>dashboard\<close>
  returns a summary in which \<^verbatim>\<open>open_cases\<close> counts the cases with status New, Draft
  or Waiting Signature, \<^verbatim>\<open>completed_cases\<close> those with status Completed, the two
  together are at most the number of cases, and \<^verbatim>\<open>recent_activity\<close> holds at most 10
  audit entries in descending order of \<^verbatim>\<open>created_at\<close>, none older than an entry it
  leaves out.
\<close>

theorem dashboard_summary:
  assumes "get_role x_role \<in> set staff" and "valid_date y m d" and "(y, m, d) \<noteq> (9999, 12, 31)"
    and "1000 \<le> y"
  shows "\<exists>s. dashboard x_role (y, m, d, rest) db = Inr s \<and>
     open_cases (kpis s) =
       length (filter (\<lambda>c. case_status c \<in> {''New'', ''Draft'', ''Waiting Signature''}) (db_case db)) \<and>
     completed_cases (kpis s) =
       length (filter (\<lambda>c. case_status c = ''Completed'') (db_case db)) \<and>
     open_cases (kpis s) + completed_cases (kpis s) \<le> length (db_case db) \<and>
     length (recent_activity s) \<le> 10 \<and>
     sorted_wrt (\<lambda>a b. created_at a \<ge> created_at b) (recent_activity s) \<and>
     (\<exists>older. mset (db_auditlog db) = mset (recent_activity s) + mset older \<and>
        (\<forall>a\<in>set (recent_activity s). \<forall>b\<in>set older. created_at b \<le> created_at a))"
proof -
  from dashboard_ok[OF assms(1-3), of rest db] obtain s today where
    s: "dashboard x_role (y, m, d, rest) db = Inr s" and
    k: "kpis s = \<lparr>appointments_today = today,
                   open_cases = count_documents
                     (\<lambda>c. case_status c \<in> set [''New'', ''Draft'', ''Waiting Signature''])
                     (db_case db),
                   completed_cases = count_documents
                     (\<lambda>c. case_status c = ''Completed'') (db_case db)\<rparr>" and
    r: "recent_activity s = take 10 (rev (sort_key created_at (db_auditlog db)))"
    by auto
  have 1: "open_cases (kpis s) =
       length (filter (\<lambda>c. case_status c \<in> {''New'', ''Draft'', ''Waiting Signature''}) (db_case db))"
    by (simp add: k count_documents_def)
  have 2: "completed_cases (kpis s) =
       length (filter (\<lambda>c. case_status c = ''Completed'') (db_case db))"
    by (simp add: k count_documents_def)
  have 3: "open_cases (kpis s) + completed_cases (kpis s) \<le> length (db_case db)"
    using count_open_completed[of "db_case db"] by (simp add: k)
  have 4: "length (recent_activity s) \<le> 10"
    by (simp add: r)
  have 5: "sorted_wrt (\<lambda>a b. created_at a \<ge> created_at b) (recent_activity s)"
    unfolding r by (rule recent_sorted)
  have 6: "\<exists>older. mset (db_auditlog db) = mset (recent_activity s) + mset older \<and>
        (\<forall>a\<in>set (recent_activity s). \<forall>b\<in>set older. created_at b \<le> created_at a)"
    unfolding r by (rule recent_older)
  from s 1 2 3 4 5 6 show ?thesis by blast
qed

theorem dashboard_summary_witness:
  "get_role (Some ''notary'') \<in> set staff \<and> valid_date 2024 1 10 \<and> (1000::nat) \<le> 2024 \<and>
   length (db_case db_one_case) = 1 \<and>
   (\<exists>s. dashboard (Some ''notary'') (2024, 1, 10, 12, 0, 0, 0) db_one_case = Inr s \<and>
     open_cases (kpis s) = 1 \<and> completed_cases (kpis s) = 0 \<and>
     open_cases (kpis s) + completed_cases (kpis s) \<le> length (db_case db_one_case) \<and>
     length (recent_activity s) \<le> 10 \<and>
     sorted_wrt (\<lambda>a b. created_at a \<ge> created_at b) (recent_activity s) \<and>
     (\<exists>older. mset (db_auditlog db_one_case) = mset (recent_activity s) + mset older \<and>
        (\<forall>a\<in>set (recent_activity s). \<forall>b\<in>set older. created_at b \<le> created_at a)))"
proof -
  have v: "valid_date 2024 1 10"
    by (simp add: valid_date_def days_in_month_def)
  have ne: "(2024, 1, 10) \<noteq> (9999, 12, 31 :: nat)" by simp
  have st: "map case_status (db_case db_one_case) = [''New'']"
    by (simp add: db_one_case_cases case_document_def new_case_def Case_of_def)
  then have o: "length (filter (\<lambda>c. case_status c \<in> {''New'', ''Draft'', ''Waiting Signature''})
                  (db_case db_one_case)) = 1"
    and c: "length (filter (\<lambda>c. case_status c = ''Completed'') (db_case db_one_case)) = 0"
    by (simp_all add: db_one_case_cases)
  have l: "length (db_case db_one_case) = 1"
    by (simp add: db_one_case_cases)
  have y: "(1000::nat) \<le> 2024" by simp
  from dashboard_summary[OF notary_staff v ne y, of "(12, 0, 0, 0)" db_one_case]
  obtain s where "dashboard (Some ''notary'') (2024, 1, 10, 12, 0, 0, 0) db_one_case = Inr s"
    and "open_cases (kpis s) = 1" and "completed_cases (kpis s) = 0"
    and "open_cases (kpis s) + completed_cases (kpis s) \<le> length (db_case db_one_case)"
    and "length (recent_activity s) \<le> 10"
    and "sorted_wrt (\<lambda>a b. created_at a \<ge> created_at b) (recent_activity s)"
    and "\<exists>older. mset (db_auditlog db_one_case) = mset (recent_activity s) + mset older \<and>
        (\<forall>a\<in>set (recent_activity s). \<forall>b\<in>set older. created_at b \<le> created_at a)"
    unfolding o c by blast
  with notary_staff v y l show ?thesis by blast
qed

end
